theory Spec2Isabelle
  imports Main "HOL-Library.AList"
begin

section \<open>Log item tags (crash/subsystem/filesystem/xfs.py, lines 17-34)\<close>

text \<open>
  The tag constants of the XFS log items. Python integers are unbounded, so a tag is
  an \<open>int\<close>.
\<close>

definition XFS_LI_EFI :: int where "XFS_LI_EFI = 0x1236"
definition XFS_LI_EFD :: int where "XFS_LI_EFD = 0x1237"
definition XFS_LI_IUNLINK :: int where "XFS_LI_IUNLINK = 0x1238"
definition XFS_LI_INODE :: int where "XFS_LI_INODE = 0x123b"
definition XFS_LI_BUF :: int where "XFS_LI_BUF = 0x123c"
definition XFS_LI_DQUOT :: int where "XFS_LI_DQUOT = 0x123d"
definition XFS_LI_QUOTAOFF :: int where "XFS_LI_QUOTAOFF = 0x123e"

text \<open>
  A Python dict display \<open>{k1: v1, k2: v2, ...}\<close> stores its items from left to right; an
  item whose key is already present replaces the stored value and keeps the key's place.
  The dict is an association list with distinct keys, in insertion order.
\<close>

definition dict_display :: "('k \<times> 'v) list \<Rightarrow> ('k \<times> 'v) list" where
  "dict_display items = foldl (\<lambda>d (k, v). AList.update k v d) [] items"

text \<open>The items of the display of \<open>XFS_LI_TYPES\<close>, as written (eight of them).\<close>

definition XFS_LI_TYPES_items :: "(int \<times> string) list" where
  "XFS_LI_TYPES_items =
     [(XFS_LI_EFI, ''XFS_LI_EFI''),
      (XFS_LI_EFD, ''XFS_LI_EFD''),
      (XFS_LI_IUNLINK, ''XFS_LI_IUNLINK''),
      (XFS_LI_INODE, ''XFS_LI_INODE''),
      (XFS_LI_BUF, ''XFS_LI_BUF''),
      (XFS_LI_EFI, ''XFS_LI_EFI''),
      (XFS_LI_DQUOT, ''XFS_LI_DQUOT''),
      (XFS_LI_QUOTAOFF, ''XFS_LI_QUOTAOFF'')]"

definition XFS_LI_TYPES :: "(int \<times> string) list" where
  "XFS_LI_TYPES = dict_display XFS_LI_TYPES_items"

text \<open>The seven tag constants of the module.\<close>

definition known_tags :: "int list" where
  "known_tags = [XFS_LI_EFI, XFS_LI_EFD, XFS_LI_IUNLINK, XFS_LI_INODE, XFS_LI_BUF,
                 XFS_LI_DQUOT, XFS_LI_QUOTAOFF]"

section \<open>Errors\<close>

text \<open>
  Addresses and the integers read from the image are Python integers. Every exception
  the modelled code raises is a value of \<open>error\<close>; a function that can raise returns
  \<open>error + 'a\<close>, with \<open>Inl\<close> for the exception.
\<close>

type_synonym addr = int

datatype error =
    TypeError string
  | RuntimeError string
  | AttributeError string
  | KeyError int
  | FieldNotFoundError string
  | MemoryAccessError addr
  | CorruptListError nat addr
  | UndecodableHandleError int

section \<open>Formatting integers (\<open>str.format\<close> with \<open>{:x}\<close> and \<open>{}\<close>)\<close>

definition hex_digit :: "nat \<Rightarrow> char" where
  "hex_digit d = ''0123456789abcdef'' ! d"

function hex_nat :: "nat \<Rightarrow> string" where
  "hex_nat n = (if n < 16 then [hex_digit n] else hex_nat (n div 16) @ [hex_digit (n mod 16)])"
  by pat_completeness auto
termination
  by (relation "measure id") auto

text \<open>\<open>"{:x}".format(n)\<close>: lower-case hexadecimal, no prefix, a minus sign for a negative \<open>n\<close>.\<close>

definition format_x :: "int \<Rightarrow> string" where
  "format_x n = (if n < 0 then CHR ''-'' # hex_nat (nat (- n)) else hex_nat (nat n))"

function dec_nat :: "nat \<Rightarrow> string" where
  "dec_nat n = (if n < 10 then [hex_digit n] else dec_nat (n div 10) @ [hex_digit (n mod 10)])"
  by pat_completeness auto
termination
  by (relation "measure id") auto

text \<open>\<open>"{}".format(n)\<close> for an integer: decimal, a minus sign for a negative \<open>n\<close>.\<close>

definition format_d :: "int \<Rightarrow> string" where
  "format_d n = (if n < 0 then CHR ''-'' # dec_nat (nat (- n)) else dec_nat (nat n))"

section \<open>Structure type descriptors, typed values and the memory image\<close>

text \<open>
  The debugger's types and values (\<open>gdb.Type\<close>, \<open>gdb.Value\<close>) are external to the
  repository. A type is its layout: a name, the fields with their byte offsets and
  sizes, and the total size. A value of a structure type (or a pointer to one: field
  access goes through the pointer) is an address paired with the type. The image gives
  the integer or pointer stored at an address, or nothing where memory is unreadable.
\<close>

record field_layout =
  byte_offset :: nat
  byte_size :: nat

record descriptor =
  type_name :: string
  type_fields :: "(string \<times> field_layout) list"
  total_size :: nat

record typed_value =
  tv_address :: addr
  tv_type :: descriptor

type_synonym image = "addr \<Rightarrow> int option"

text \<open>\<open>name in gdbtype\<close>: the type has a field of that name.\<close>

definition has_field :: "descriptor \<Rightarrow> string \<Rightarrow> bool" where
  "has_field d f = (map_of (type_fields d) f \<noteq> None)"

definition offset_of :: "descriptor \<Rightarrow> string \<Rightarrow> error + nat" where
  "offset_of d f =
     (case map_of (type_fields d) f of
        None \<Rightarrow> Inl (FieldNotFoundError f)
      | Some l \<Rightarrow> Inr (byte_offset l))"

text \<open>\<open>long(v[f])\<close>: the integer stored in field \<open>f\<close> of the value \<open>v\<close>.\<close>

definition read_field :: "image \<Rightarrow> typed_value \<Rightarrow> string \<Rightarrow> error + int" where
  "read_field img v f =
     (case offset_of (tv_type v) f of
        Inl e \<Rightarrow> Inl e
      | Inr off \<Rightarrow>
          (case img (tv_address v + int off) of
             None \<Rightarrow> Inl (MemoryAccessError (tv_address v + int off))
           | Some x \<Rightarrow> Inr x))"

text \<open>
  Modelled from the spec: \<open>crash.util.container_of\<close> is not among the sources. Section
  4.4: \<open>container_of(member_address, owning_descriptor, member_field_name)\<close> is a typed
  value whose address is \<open>member_address - offset(member_field_name, owning_descriptor)\<close>
  and whose type is \<open>owning_descriptor\<close>; it is address arithmetic and reads no memory.
  Section 4.1: looking up a field the type does not have fails with
  \<open>FieldNotFoundError\<close>.
\<close>

definition container_of :: "addr \<Rightarrow> descriptor \<Rightarrow> string \<Rightarrow> error + typed_value" where
  "container_of member_address owning_descriptor member_field_name =
     (case offset_of owning_descriptor member_field_name of
        Inl e \<Rightarrow> Inl e
      | Inr off \<Rightarrow>
          Inr \<lparr>tv_address = member_address - int off, tv_type = owning_descriptor\<rparr>)"

section \<open>The class \<open>XFSFileSystem\<close> (crash/subsystem/filesystem/xfs.py)\<close>

text \<open>
  The class attributes: the types named in \<open>__types__\<close>, resolved by the base class
  (not among the sources, so the resolved types are given), and \<open>ail_head_name\<close>,
  which does not exist until \<open>_detect_ail_version\<close> has set it.
\<close>

record xfs_cls =
  xfs_log_item_type :: descriptor
  xfs_buf_log_item_type :: descriptor
  xfs_inode_log_item_type :: descriptor
  xfs_efi_log_item_type :: descriptor
  xfs_efd_log_item_type :: descriptor
  xfs_dq_logitem_type :: descriptor
  xfs_qoff_logitem_type :: descriptor
  xfs_inode_type :: descriptor
  xfs_mount_p_type :: descriptor
  xfs_buf_p_type :: descriptor
  ail_head_name :: "string option"

text \<open>
  What \<open>xfs_log_item_typed\<close> returns: a value of a specific log item structure, or the
  bare integer tag.
\<close>

datatype typed_item = Structure typed_value | BareTag int

definition item_to_buf_log_item :: "xfs_cls \<Rightarrow> image \<Rightarrow> typed_value \<Rightarrow> error + typed_value" where
  "item_to_buf_log_item cls img item =
     (case read_field img item ''li_type'' of
        Inl e \<Rightarrow> Inl e
      | Inr t \<Rightarrow>
          if t \<noteq> XFS_LI_BUF then Inl (TypeError ''item is not a buf log item'')
          else container_of (tv_address item) (xfs_buf_log_item_type cls) ''bli_item'')"

definition item_to_inode_log_item :: "xfs_cls \<Rightarrow> image \<Rightarrow> typed_value \<Rightarrow> error + typed_value" where
  "item_to_inode_log_item cls img item =
     (case read_field img item ''li_type'' of
        Inl e \<Rightarrow> Inl e
      | Inr t \<Rightarrow>
          if t \<noteq> XFS_LI_INODE then Inl (TypeError ''item is not an inode log item'')
          else container_of (tv_address item) (xfs_inode_log_item_type cls) ''ili_item'')"

definition item_to_efi_log_item :: "xfs_cls \<Rightarrow> image \<Rightarrow> typed_value \<Rightarrow> error + typed_value" where
  "item_to_efi_log_item cls img item =
     (case read_field img item ''li_type'' of
        Inl e \<Rightarrow> Inl e
      | Inr t \<Rightarrow>
          if t \<noteq> XFS_LI_EFI then Inl (TypeError ''item is not an EFI log item'')
          else container_of (tv_address item) (xfs_efi_log_item_type cls) ''efi_item'')"

definition item_to_efd_log_item :: "xfs_cls \<Rightarrow> image \<Rightarrow> typed_value \<Rightarrow> error + typed_value" where
  "item_to_efd_log_item cls img item =
     (case read_field img item ''li_type'' of
        Inl e \<Rightarrow> Inl e
      | Inr t \<Rightarrow>
          if t \<noteq> XFS_LI_EFD then Inl (TypeError ''item is not an EFD log item'')
          else container_of (tv_address item) (xfs_efd_log_item_type cls) ''efd_item'')"

definition item_to_dquot_log_item :: "xfs_cls \<Rightarrow> image \<Rightarrow> typed_value \<Rightarrow> error + typed_value" where
  "item_to_dquot_log_item cls img item =
     (case read_field img item ''li_type'' of
        Inl e \<Rightarrow> Inl e
      | Inr t \<Rightarrow>
          if t \<noteq> XFS_LI_DQUOT then Inl (TypeError ''item is not an DQUOT log item'')
          else container_of (tv_address item) (xfs_dq_logitem_type cls) ''qli_item'')"

definition item_to_quotaoff_log_item :: "xfs_cls \<Rightarrow> image \<Rightarrow> typed_value \<Rightarrow> error + typed_value" where
  "item_to_quotaoff_log_item cls img item =
     (case read_field img item ''li_type'' of
        Inl e \<Rightarrow> Inl e
      | Inr t \<Rightarrow>
          if t \<noteq> XFS_LI_QUOTAOFF then Inl (TypeError ''item is not an QUOTAOFF log item'')
          else container_of (tv_address item) (xfs_qoff_logitem_type cls) ''qql_item'')"

text \<open>A conversion's structure, wrapped as the dispatcher's result.\<close>

definition as_structure :: "error + typed_value \<Rightarrow> error + typed_item" where
  "as_structure r = (case r of Inl e \<Rightarrow> Inl e | Inr v \<Rightarrow> Inr (Structure v))"

definition xfs_log_item_typed :: "xfs_cls \<Rightarrow> image \<Rightarrow> typed_value \<Rightarrow> error + typed_item" where
  "xfs_log_item_typed cls img item =
     (case read_field img item ''li_type'' of
        Inl e \<Rightarrow> Inl e
      | Inr li_type \<Rightarrow>
          if li_type = XFS_LI_BUF then as_structure (item_to_buf_log_item cls img item)
          else if li_type = XFS_LI_INODE then as_structure (item_to_inode_log_item cls img item)
          else if li_type = XFS_LI_EFI then as_structure (item_to_efi_log_item cls img item)
          else if li_type = XFS_LI_EFD then as_structure (item_to_efd_log_item cls img item)
          else if li_type = XFS_LI_IUNLINK then Inr (BareTag li_type)
          else if li_type = XFS_LI_DQUOT then as_structure (item_to_dquot_log_item cls img item)
          else if li_type = XFS_LI_QUOTAOFF then
            as_structure (item_to_quotaoff_log_item cls img item)
          else Inl (RuntimeError (''Unknown AIL item type '' @ format_x li_type)))"

text \<open>
  The resolved types embed the generic header under the member names the conversions
  pass to \<open>container_of\<close>.
\<close>

definition embeds_log_item :: "xfs_cls \<Rightarrow> bool" where
  "embeds_log_item cls =
     (has_field (xfs_buf_log_item_type cls) ''bli_item''
      \<and> has_field (xfs_inode_log_item_type cls) ''ili_item''
      \<and> has_field (xfs_efi_log_item_type cls) ''efi_item''
      \<and> has_field (xfs_efd_log_item_type cls) ''efd_item''
      \<and> has_field (xfs_dq_logitem_type cls) ''qli_item''
      \<and> has_field (xfs_qoff_logitem_type cls) ''qql_item'')"

section \<open>The intrusive list walker\<close>

text \<open>
  Modelled from the spec: \<open>crash.types.list.list_for_each_entry\<close> is not among the
  sources. Section 4.3: start at the head's next pointer; repeat: if the current link
  is the head, stop; otherwise downcast the link to its payload through
  \<open>container_of\<close>, yield it, and advance to the next pointer of the yielded payload's
  link field. The traversal has a step ceiling; exceeding it fails with
  \<open>CorruptListError\<close> carrying the number of steps taken and the last good address.
  The spec fixes no value for the ceiling, so it is a parameter. The next pointer is
  the first word of a link. The last good address is the link visited last (the head
  before the first step).

  The sequence is lazy: the values yielded before a failure have reached the consumer.
  The result is the list of yielded values with the outcome, \<open>None\<close> for normal
  termination.
\<close>

fun walk ::
  "image \<Rightarrow> addr \<Rightarrow> descriptor \<Rightarrow> string \<Rightarrow> nat \<Rightarrow> nat \<Rightarrow> addr \<Rightarrow> addr
   \<Rightarrow> typed_value list \<times> error option" where
  "walk img head D F 0 steps last_good cur =
     (if cur = head then ([], None) else ([], Some (CorruptListError steps last_good)))"
| "walk img head D F (Suc budget) steps last_good cur =
     (if cur = head then ([], None)
      else
        (case container_of cur D F of
           Inl e \<Rightarrow> ([], Some e)
         | Inr entry \<Rightarrow>
             (case read_field img entry F of
                Inl e \<Rightarrow> ([entry], Some e)
              | Inr nxt \<Rightarrow>
                  (case walk img head D F budget (Suc steps) cur nxt of
                     (rest, outcome) \<Rightarrow> (entry # rest, outcome)))))"

definition list_for_each_entry ::
  "nat \<Rightarrow> image \<Rightarrow> addr \<Rightarrow> descriptor \<Rightarrow> string \<Rightarrow> typed_value list \<times> error option" where
  "list_for_each_entry step_ceiling img head D F =
     (case img head of
        None \<Rightarrow> ([], Some (MemoryAccessError head))
      | Some first \<Rightarrow> walk img head D F step_ceiling 0 head first)"

text \<open>
  A ring of links: from \<open>prev\<close>, the next pointers lead through the links \<open>nodes\<close>,
  none of them the head, and from the last of them back to the head.
\<close>

fun ring :: "image \<Rightarrow> addr \<Rightarrow> addr \<Rightarrow> addr list \<Rightarrow> bool" where
  "ring img head prev [] = (img prev = Some head)"
| "ring img head prev (a # nodes) = (img prev = Some a \<and> a \<noteq> head \<and> ring img head a nodes)"

text \<open>
  A chain of links that does not come back: from \<open>prev\<close>, the next pointers lead
  through the links \<open>nodes\<close>, none of them the head.
\<close>

fun open_chain :: "image \<Rightarrow> addr \<Rightarrow> addr \<Rightarrow> addr list \<Rightarrow> bool" where
  "open_chain img head prev [] = True"
| "open_chain img head prev (a # nodes) =
     (img prev = Some a \<and> a \<noteq> head \<and> open_chain img head a nodes)"

text \<open>The payload a link belongs to, when the link field is at byte offset \<open>off\<close>.\<close>

definition payload :: "descriptor \<Rightarrow> nat \<Rightarrow> addr \<Rightarrow> typed_value" where
  "payload D off a = \<lparr>tv_address = a - int off, tv_type = D\<rparr>"

section \<open>The AIL head name and the AIL traversal\<close>

text \<open>\<open>_detect_ail_version\<close> (lines 146-151): sets the class attribute.\<close>

definition detect_ail_version :: "descriptor \<Rightarrow> xfs_cls \<Rightarrow> xfs_cls" where
  "detect_ail_version gdbtype cls =
     (if has_field gdbtype ''ail_head'' then cls\<lparr>ail_head_name := Some ''ail_head''\<rparr>
      else cls\<lparr>ail_head_name := Some ''xa_ail''\<rparr>)"

text \<open>\<open>__type_callbacks__\<close> (lines 108-109): subject type name and method name.\<close>

definition type_callbacks :: "(string \<times> string) list" where
  "type_callbacks = [(''struct xfs_ail'', ''_detect_ail_version'')]"

text \<open>The method of the class a callback name denotes.\<close>

definition run_type_callback :: "string \<Rightarrow> descriptor \<Rightarrow> xfs_cls \<Rightarrow> xfs_cls" where
  "run_type_callback method gdbtype cls =
     (if method = ''_detect_ail_version'' then detect_ail_version gdbtype cls else cls)"

text \<open>
  Modelled from the spec: the base class that keeps the registrations and runs the
  callbacks (\<open>crash.infra\<close>) is not among the sources. Section 4.2: whenever the session
  resolves a type, a pending registration of that name has its callback run at once
  with the resolved descriptor, and the registration is consumed.
\<close>

record session =
  cls_state :: xfs_cls
  pending :: "(string \<times> string) list"

definition type_resolved :: "string \<Rightarrow> descriptor \<Rightarrow> session \<Rightarrow> session" where
  "type_resolved name gdbtype s =
     \<lparr>cls_state =
        foldl (\<lambda>c (subject, method). if subject = name then run_type_callback method gdbtype c
                                      else c)
          (cls_state s) (pending s),
      pending = filter (\<lambda>(subject, method). subject \<noteq> name) (pending s)\<rparr>"

text \<open>A run of resolution events, oldest first.\<close>

definition resolve_all :: "(string \<times> descriptor) list \<Rightarrow> session \<Rightarrow> session" where
  "resolve_all events s = foldl (\<lambda>s (name, gdbtype). type_resolved name gdbtype s) s events"

text \<open>
  \<open>xfs_for_each_ail_entry\<close> (lines 187-201). Reading \<open>cls.ail_head_name\<close> before the
  callback has set it raises; \<open>ail[name]\<close> is the list head embedded in the AIL.
\<close>

definition xfs_for_each_ail_entry ::
  "nat \<Rightarrow> xfs_cls \<Rightarrow> image \<Rightarrow> typed_value \<Rightarrow> typed_value list \<times> error option" where
  "xfs_for_each_ail_entry step_ceiling cls img ail =
     (case ail_head_name cls of
        None \<Rightarrow> ([], Some (AttributeError ''ail_head_name''))
      | Some name \<Rightarrow>
          (case offset_of (tv_type ail) name of
             Inl e \<Rightarrow> ([], Some e)
           | Inr off \<Rightarrow>
               list_for_each_entry step_ceiling img (tv_address ail + int off)
                 (xfs_log_item_type cls) ''li_ail''))"

section \<open>Bio decoders\<close>

text \<open>
  A chain entry is the dict a decoder returns; a key a decoder does not set is \<open>None\<close>.
  The key \<open>next\<close> is the field \<open>next_handle\<close>, the key \<open>decode\<close> names the decoder
  for it.
\<close>

datatype decoder = Decode_xfsbuf | Decode_xfs_buf_bio_end_io

record chain_entry =
  description :: string
  fstype :: string
  bio :: "typed_value option"
  devname :: "string option"
  xfsbuf :: "typed_value option"
  next_handle :: "typed_value option"
  decode :: "decoder option"

text \<open>\<open>decode_xfsbuf\<close> (lines 117-127).\<close>

definition decode_xfsbuf :: "image \<Rightarrow> typed_value \<Rightarrow> error + chain_entry" where
  "decode_xfsbuf img buf =
     (case read_field img buf ''b_file_offset'' of
        Inl e \<Rightarrow> Inl e
      | Inr b_file_offset \<Rightarrow>
          (case read_field img buf ''b_buffer_length'' of
             Inl e \<Rightarrow> Inl e
           | Inr b_buffer_length \<Rightarrow>
               (case read_field img buf ''b_bn'' of
                  Inl e \<Rightarrow> Inl e
                | Inr b_bn \<Rightarrow>
                    Inr \<lparr>description =
                           format_x (tv_address buf) @ '' xfsbuf: offset ''
                           @ format_d b_file_offset @ '', size '' @ format_d b_buffer_length
                           @ '', block number '' @ format_d b_bn,
                         fstype = ''xfs'',
                         bio = None,
                         devname = None,
                         xfsbuf = Some buf,
                         next_handle = None,
                         decode = None\<rparr>)))"

text \<open>
  \<open>decode_xfs_buf_bio_end_io\<close> (lines 129-143). \<open>block_device_name\<close>
  (\<open>crash.subsystem.storage\<close>) is not among the sources; it is the parameter \<open>bdn\<close>,
  from the value of \<open>bi_bdev\<close> to the device's name.
\<close>

definition decode_xfs_buf_bio_end_io ::
  "xfs_cls \<Rightarrow> image \<Rightarrow> (int \<Rightarrow> error + string) \<Rightarrow> typed_value \<Rightarrow> error + chain_entry" where
  "decode_xfs_buf_bio_end_io cls img bdn b =
     (case read_field img b ''bi_private'' of
        Inl e \<Rightarrow> Inl e
      | Inr bi_private \<Rightarrow>
          (case read_field img b ''bi_bdev'' of
             Inl e \<Rightarrow> Inl e
           | Inr bi_bdev \<Rightarrow>
               (case bdn bi_bdev of
                  Inl e \<Rightarrow> Inl e
                | Inr name \<Rightarrow>
                    Inr \<lparr>description =
                           format_x (tv_address b) @ '' bio: '' @ ''xfs'' @ '' buffer on '' @ name,
                         fstype = ''xfs'',
                         bio = Some b,
                         devname = Some name,
                         xfsbuf = None,
                         next_handle =
                           Some \<lparr>tv_address = bi_private, tv_type = xfs_buf_p_type cls\<rparr>,
                         decode = Some Decode_xfsbuf\<rparr>)))"

definition apply_decoder ::
  "xfs_cls \<Rightarrow> image \<Rightarrow> (int \<Rightarrow> error + string) \<Rightarrow> decoder \<Rightarrow> typed_value
   \<Rightarrow> error + chain_entry" where
  "apply_decoder cls img bdn d h =
     (case d of
        Decode_xfsbuf \<Rightarrow> decode_xfsbuf img h
      | Decode_xfs_buf_bio_end_io \<Rightarrow> decode_xfs_buf_bio_end_io cls img bdn h)"

text \<open>
  Modelled from the spec: the decoder registry and the chain driver
  (\<open>crash.subsystem.storage\<close>) are not among the sources. Section 4.6:
  \<open>register(symbol_identity, decoder_fn)\<close> maps the identity of a completion routine
  to a decoder; \<open>decode(handle)\<close> looks up the decoder registered for the handle's
  completion routine (the identity is only a key; an unregistered one fails with
  \<open>UndecodableHandleError\<close>), applies it to obtain one entry, and while an entry names
  a successor continues with the successor and the decoder named for it; the sequence
  ends at an entry that names no successor. The sequence is lazy, so the result keeps
  the entries produced before a failure. Nothing bounds the length of a chain, so the
  driver takes fuel, and \<open>None\<close> is a chain that has not ended within it.
\<close>

type_synonym registry = "int \<Rightarrow> decoder option"

definition register_bio_decoder :: "int \<Rightarrow> decoder \<Rightarrow> registry \<Rightarrow> registry" where
  "register_bio_decoder symbol d reg = reg(symbol \<mapsto> d)"

text \<open>\<open>_register_xfs_buf_bio_end_io\<close> (lines 113-115).\<close>

definition register_xfs_buf_bio_end_io :: "int \<Rightarrow> registry \<Rightarrow> registry" where
  "register_xfs_buf_bio_end_io symbol reg =
     register_bio_decoder symbol Decode_xfs_buf_bio_end_io reg"

fun follow ::
  "nat \<Rightarrow> xfs_cls \<Rightarrow> image \<Rightarrow> (int \<Rightarrow> error + string) \<Rightarrow> decoder \<Rightarrow> typed_value
   \<Rightarrow> (chain_entry list \<times> error option) option" where
  "follow 0 cls img bdn d h = None"
| "follow (Suc fuel) cls img bdn d h =
     (case apply_decoder cls img bdn d h of
        Inl e \<Rightarrow> Some ([], Some e)
      | Inr entry \<Rightarrow>
          (case (next_handle entry, decode entry) of
             (Some h', Some d') \<Rightarrow>
               (case follow fuel cls img bdn d' h' of
                  None \<Rightarrow> None
                | Some (rest, outcome) \<Rightarrow> Some (entry # rest, outcome))
           | _ \<Rightarrow> Some ([entry], None)))"

definition decode_bio ::
  "nat \<Rightarrow> registry \<Rightarrow> xfs_cls \<Rightarrow> image \<Rightarrow> (int \<Rightarrow> error + string) \<Rightarrow> typed_value
   \<Rightarrow> (chain_entry list \<times> error option) option" where
  "decode_bio fuel reg cls img bdn h =
     (case read_field img h ''bi_end_io'' of
        Inl e \<Rightarrow> Some ([], Some e)
      | Inr key \<Rightarrow>
          (case reg key of
             None \<Rightarrow> Some ([], Some (UndecodableHandleError key))
           | Some d \<Rightarrow> follow fuel cls img bdn d h))"

section \<open>The command \<open>xfs dump-ail\<close> (crash/commands/xfs.py, lines 93-138)\<close>

text \<open>
  The body of the loop of \<open>dump_ail\<close> for one item. Every branch of the chain only
  reads fields of the typed item and prints them; the model keeps which branch runs
  and on which item, and for the last branch the text it prints. There the address of
  the typed item is read, which the bare tag of an unlink item does not have. The
  result is the text printed before the branches with the branch taken; an exception
  ends the command.
\<close>

datatype ail_body =
    Buf_body typed_item
  | Inode_body typed_item
  | Efi_body typed_item
  | Efd_body typed_item
  | Dquot_body typed_item
  | Quotaoff_body typed_item
  | Item_body string

definition dump_ail_item ::
  "xfs_cls \<Rightarrow> image \<Rightarrow> int \<Rightarrow> typed_value \<Rightarrow> error + string \<times> ail_body" where
  "dump_ail_item cls img itemno bitem =
     (case read_field img bitem ''li_type'' of
        Inl e \<Rightarrow> Inl e
      | Inr li_type \<Rightarrow>
     (case read_field img bitem ''li_lsn'' of
        Inl e \<Rightarrow> Inl e
      | Inr lsn \<Rightarrow>
     (case xfs_log_item_typed cls img bitem of
        Inl e \<Rightarrow> Inl e
      | Inr item \<Rightarrow>
     (case map_of XFS_LI_TYPES li_type of
        None \<Rightarrow> Inl (KeyError li_type)
      | Some name \<Rightarrow>
     (let header = format_d itemno @ '': item='' @ format_x (tv_address bitem)
                   @ '' lsn='' @ format_d lsn @ '' '' @ drop 7 name @ '' ''
      in
        if li_type = XFS_LI_BUF then Inr (header, Buf_body item)
        else if li_type = XFS_LI_INODE then Inr (header, Inode_body item)
        else if li_type = XFS_LI_EFI then Inr (header, Efi_body item)
        else if li_type = XFS_LI_EFI then Inr (header, Efd_body item)
        else if li_type = XFS_LI_DQUOT then Inr (header, Dquot_body item)
        else if li_type = XFS_LI_QUOTAOFF then Inr (header, Quotaoff_body item)
        else
          (case item of
             Structure v \<Rightarrow> Inr (header, Item_body (''item@'' @ format_x (tv_address v)))
           | BareTag n \<Rightarrow> Inl (AttributeError ''address'')))))))"

section \<open>A synthetic image\<close>

text \<open>
  A small image for concrete runs: an AIL at \<open>0x1000\<close> whose list head (\<open>xa_ail\<close>) is
  at \<open>0x1008\<close>, with three items on the list, in link order a buffer item, an inode
  item and an unlink item; an extent-free-done item and an item with an unknown tag
  off the list; a bio at \<open>0x7000\<close> whose private data is the buffer at \<open>0x8000\<close>;
  a corrupted list with head \<open>0x9000\<close>, whose links \<open>0x9100\<close> and \<open>0x9200\<close> point at
  each other and never back at the head.
\<close>

definition struct :: "string \<Rightarrow> (string \<times> nat \<times> nat) list \<Rightarrow> nat \<Rightarrow> descriptor" where
  "struct name members sz_total =
     \<lparr>type_name = name,
      type_fields = map (\<lambda>(f, off, sz). (f, \<lparr>byte_offset = off, byte_size = sz\<rparr>)) members,
      total_size = sz_total\<rparr>"

definition ex_log_item :: descriptor where
  "ex_log_item =
     struct ''struct xfs_log_item'' [(''li_ail'', 0, 16), (''li_lsn'', 16, 8), (''li_type'', 24, 4)] 32"

definition ex_buf_log_item :: descriptor where
  "ex_buf_log_item =
     struct ''struct xfs_buf_log_item''
       [(''bli_item'', 0, 32), (''bli_buf'', 32, 8), (''bli_flags'', 40, 4)] 48"

definition ex_inode_log_item :: descriptor where
  "ex_inode_log_item =
     struct ''struct xfs_inode_log_item'' [(''ili_inode'', 0, 8), (''ili_item'', 8, 32)] 40"

definition ex_efi_log_item :: descriptor where
  "ex_efi_log_item =
     struct ''struct xfs_efi_log_item'' [(''efi_item'', 0, 32), (''efi_format'', 32, 16)] 48"

definition ex_efd_log_item :: descriptor where
  "ex_efd_log_item =
     struct ''struct xfs_efd_log_item''
       [(''efd_efip'', 0, 8), (''efd_item'', 8, 32), (''efd_format'', 40, 16)] 56"

definition ex_dq_logitem :: descriptor where
  "ex_dq_logitem =
     struct ''struct xfs_dq_logitem'' [(''qli_item'', 0, 32), (''qli_dquot'', 32, 8)] 40"

definition ex_qoff_logitem :: descriptor where
  "ex_qoff_logitem =
     struct ''struct xfs_qoff_logitem'' [(''qql_item'', 0, 32), (''qql_format'', 32, 16)] 48"

definition ex_inode :: descriptor where
  "ex_inode = struct ''struct xfs_inode'' [(''i_ino'', 0, 8), (''i_vnode'', 8, 64)] 72"

definition ex_mount_p :: descriptor where
  "ex_mount_p = struct ''struct xfs_mount *'' [(''m_ail'', 0, 8)] 8"

definition ex_buf_p :: descriptor where
  "ex_buf_p =
     struct ''struct xfs_buf *''
       [(''b_file_offset'', 0, 8), (''b_buffer_length'', 8, 8), (''b_bn'', 16, 8)] 24"

definition ex_ail_old :: descriptor where
  "ex_ail_old = struct ''struct xfs_ail'' [(''xa_target'', 0, 8), (''xa_ail'', 8, 16)] 24"

definition ex_ail_new :: descriptor where
  "ex_ail_new = struct ''struct xfs_ail'' [(''ail_target'', 0, 8), (''ail_head'', 8, 16)] 24"

definition ex_bio :: descriptor where
  "ex_bio =
     struct ''struct bio'' [(''bi_bdev'', 0, 8), (''bi_end_io'', 8, 8), (''bi_private'', 16, 8)] 24"

definition ex_cls :: xfs_cls where
  "ex_cls =
     \<lparr>xfs_log_item_type = ex_log_item,
      xfs_buf_log_item_type = ex_buf_log_item,
      xfs_inode_log_item_type = ex_inode_log_item,
      xfs_efi_log_item_type = ex_efi_log_item,
      xfs_efd_log_item_type = ex_efd_log_item,
      xfs_dq_logitem_type = ex_dq_logitem,
      xfs_qoff_logitem_type = ex_qoff_logitem,
      xfs_inode_type = ex_inode,
      xfs_mount_p_type = ex_mount_p,
      xfs_buf_p_type = ex_buf_p,
      ail_head_name = None\<rparr>"

definition ex_img :: image where
  "ex_img =
     map_of
       [(0x1008, 0x2000), (0x2000, 0x3008), (0x3008, 0x4000), (0x4000, 0x1008),
        (0x2010, 1), (0x2018, XFS_LI_BUF),
        (0x3018, 2), (0x3020, XFS_LI_INODE),
        (0x4010, 3), (0x4018, XFS_LI_IUNLINK),
        (0x5018, 7), (0x5020, XFS_LI_EFD),
        (0x6010, 9), (0x6018, 0x1239),
        (0x7000, 0x7100), (0x7008, 0xa0001000), (0x7010, 0x8000),
        (0x8000, 4096), (0x8008, 512), (0x8010, 8),
        (0x9000, 0x9100), (0x9100, 0x9200), (0x9200, 0x9100)]"

definition ex_ail :: typed_value where
  "ex_ail = \<lparr>tv_address = 0x1000, tv_type = ex_ail_old\<rparr>"

definition ex_item :: "addr \<Rightarrow> typed_value" where
  "ex_item a = \<lparr>tv_address = a, tv_type = ex_log_item\<rparr>"

definition ex_bdn :: "int \<Rightarrow> error + string" where
  "ex_bdn bdev = (if bdev = 0x7100 then Inr ''sda1'' else Inl (MemoryAccessError bdev))"

section \<open>Properties\<close>

declare hex_nat.simps [simp del]
declare dec_nat.simps [simp del]

lemmas XFS_LI_defs =
  XFS_LI_EFI_def XFS_LI_EFD_def XFS_LI_IUNLINK_def XFS_LI_INODE_def
  XFS_LI_BUF_def XFS_LI_DQUOT_def XFS_LI_QUOTAOFF_def


lemma XFS_LI_TYPES_value:
  "XFS_LI_TYPES =
     [(XFS_LI_EFI, ''XFS_LI_EFI''),
      (XFS_LI_EFD, ''XFS_LI_EFD''),
      (XFS_LI_IUNLINK, ''XFS_LI_IUNLINK''),
      (XFS_LI_INODE, ''XFS_LI_INODE''),
      (XFS_LI_BUF, ''XFS_LI_BUF''),
      (XFS_LI_DQUOT, ''XFS_LI_DQUOT''),
      (XFS_LI_QUOTAOFF, ''XFS_LI_QUOTAOFF'')]"
  by (simp add: XFS_LI_TYPES_def XFS_LI_TYPES_items_def dict_display_def XFS_LI_defs)

subsection \<open>Formatting\<close>

lemma hex_digit_inj: "a < 16 \<Longrightarrow> b < 16 \<Longrightarrow> hex_digit a = hex_digit b \<Longrightarrow> a = b"
  using nth_eq_iff_index_eq[of "''0123456789abcdef''" a b] by (simp add: hex_digit_def)

lemma hex_digit_not_minus: "d < 16 \<Longrightarrow> hex_digit d \<noteq> CHR ''-''"
proof -
  assume "d < 16"
  then have "hex_digit d \<in> set ''0123456789abcdef''"
    unfolding hex_digit_def by (intro nth_mem) simp
  then show ?thesis by auto
qed

lemma hex_nat_not_Nil: "hex_nat n \<noteq> []"
  by (subst hex_nat.simps) simp

lemma hex_nat_no_minus: "CHR ''-'' \<notin> set (hex_nat n)"
proof (induction n rule: hex_nat.induct)
  case (1 n)
  show ?case
  proof (cases "n < 16")
    case True
    then show ?thesis using hex_digit_not_minus[of n] by (subst hex_nat.simps) auto
  next
    case False
    moreover have "n mod 16 < 16" by simp
    ultimately show ?thesis
      using 1 hex_digit_not_minus[of "n mod 16"] by (subst hex_nat.simps) auto
  qed
qed

lemma hex_nat_inj: "hex_nat n = hex_nat m \<Longrightarrow> n = m"
proof (induction n arbitrary: m rule: hex_nat.induct)
  case (1 n)
  show ?case
  proof (cases "n < 16")
    case n: True
    show ?thesis
    proof (cases "m < 16")
      case True
      with n 1(2) show ?thesis
        by (simp add: hex_nat.simps[of n] hex_nat.simps[of m] hex_digit_inj)
    next
      case False
      with n 1(2) hex_nat_not_Nil[of "m div 16"] show ?thesis
        by (simp add: hex_nat.simps[of n] hex_nat.simps[of m])
    qed
  next
    case n: False
    show ?thesis
    proof (cases "m < 16")
      case True
      with n 1(2) hex_nat_not_Nil[of "n div 16"] show ?thesis
        by (simp add: hex_nat.simps[of n] hex_nat.simps[of m])
    next
      case False
      with n 1(2) have eq: "hex_nat (n div 16) = hex_nat (m div 16)"
        and d: "hex_digit (n mod 16) = hex_digit (m mod 16)"
        by (simp_all add: hex_nat.simps[of n] hex_nat.simps[of m])
      from 1(1)[OF n eq] have "n div 16 = m div 16" .
      moreover from d have "n mod 16 = m mod 16"
        by (intro hex_digit_inj) simp_all
      ultimately show ?thesis by (metis div_mult_mod_eq)
    qed
  qed
qed

lemma format_x_inj: "format_x a = format_x b \<Longrightarrow> a = b"
proof -
  assume eq: "format_x a = format_x b"
  have hd: "\<And>n. hd (hex_nat n) \<noteq> CHR ''-''"
    using hex_nat_no_minus hex_nat_not_Nil by (metis hd_in_set)
  show ?thesis
  proof (cases "a < 0")
    case a: True
    show ?thesis
    proof (cases "b < 0")
      case True
      with a eq have "hex_nat (nat (- a)) = hex_nat (nat (- b))" by (simp add: format_x_def)
      then have "nat (- a) = nat (- b)" by (rule hex_nat_inj)
      with a True show ?thesis by simp
    next
      case False
      with a eq have "hd (hex_nat (nat b)) = CHR ''-''" by (simp add: format_x_def) (metis list.sel(1))
      with hd show ?thesis by blast
    qed
  next
    case a: False
    show ?thesis
    proof (cases "b < 0")
      case True
      with a eq have "hd (hex_nat (nat a)) = CHR ''-''" by (simp add: format_x_def)
      with hd show ?thesis by blast
    next
      case False
      with a eq have "hex_nat (nat a) = hex_nat (nat b)" by (simp add: format_x_def)
      then have "nat a = nat b" by (rule hex_nat_inj)
      with a False show ?thesis by simp
    qed
  qed
qed

subsection \<open>Container-of\<close>

lemma container_of_offset:
  "offset_of D F = Inr off \<Longrightarrow>
   container_of a D F = Inr \<lparr>tv_address = a - int off, tv_type = D\<rparr>"
  by (simp add: container_of_def)

lemma has_field_offset: "has_field D F \<Longrightarrow> \<exists>off. offset_of D F = Inr off"
  by (auto simp: has_field_def offset_of_def)

lemma offset_has_field: "offset_of D F = Inr off \<Longrightarrow> has_field D F"
  by (auto simp: has_field_def offset_of_def split: option.splits)

lemma container_of_has_field:
  "has_field D F \<Longrightarrow>
   \<exists>v. container_of a D F = Inr v \<and> tv_type v = D
       \<and> offset_of D F = Inr (nat (a - tv_address v))"
  by (auto simp: container_of_def dest!: has_field_offset)

text \<open>
  Claim C5. For a payload address \<open>P\<close>, a descriptor \<open>D\<close> and a member \<open>F\<close> at byte
  offset \<open>O\<close> inside \<open>D\<close>, \<open>container_of\<close> of the member address \<open>P + O\<close> is the value
  at address \<open>P\<close> of type \<open>D\<close>.
\<close>

theorem container_of_round_trip:
  "offset_of D F = Inr off \<Longrightarrow>
   container_of (P + int off) D F = Inr \<lparr>tv_address = P, tv_type = D\<rparr>"
  by (simp add: container_of_def)

theorem container_of_round_trip_witness:
  "offset_of \<lparr>type_name = ''struct xfs_buf_log_item'',
               type_fields = [(''bli_item'', \<lparr>byte_offset = 0, byte_size = 96\<rparr>),
                              (''bli_buf'', \<lparr>byte_offset = 96, byte_size = 8\<rparr>),
                              (''bli_flags'', \<lparr>byte_offset = 104, byte_size = 4\<rparr>)],
               total_size = 112\<rparr> ''bli_buf'' = Inr 96
   \<and> container_of (0x1000 + int 96)
        \<lparr>type_name = ''struct xfs_buf_log_item'',
         type_fields = [(''bli_item'', \<lparr>byte_offset = 0, byte_size = 96\<rparr>),
                        (''bli_buf'', \<lparr>byte_offset = 96, byte_size = 8\<rparr>),
                        (''bli_flags'', \<lparr>byte_offset = 104, byte_size = 4\<rparr>)],
         total_size = 112\<rparr> ''bli_buf''
       = Inr \<lparr>tv_address = 0x1000,
              tv_type = \<lparr>type_name = ''struct xfs_buf_log_item'',
                         type_fields = [(''bli_item'', \<lparr>byte_offset = 0, byte_size = 96\<rparr>),
                                        (''bli_buf'', \<lparr>byte_offset = 96, byte_size = 8\<rparr>),
                                        (''bli_flags'', \<lparr>byte_offset = 104, byte_size = 4\<rparr>)],
                         total_size = 112\<rparr>\<rparr>"
proof -
  let ?D = "\<lparr>type_name = ''struct xfs_buf_log_item'',
             type_fields = [(''bli_item'', \<lparr>byte_offset = 0, byte_size = 96\<rparr>),
                            (''bli_buf'', \<lparr>byte_offset = 96, byte_size = 8\<rparr>),
                            (''bli_flags'', \<lparr>byte_offset = 104, byte_size = 4\<rparr>)],
             total_size = 112\<rparr>"
  have h: "offset_of ?D ''bli_buf'' = Inr 96"
    by (simp add: offset_of_def)
  from container_of_round_trip [OF h, of "0x1000"] h show ?thesis
    by simp
qed

subsection \<open>The per-variant conversions and the dispatcher\<close>

lemmas item_to_defs =
  item_to_buf_log_item_def item_to_inode_log_item_def item_to_efi_log_item_def
  item_to_efd_log_item_def item_to_dquot_log_item_def item_to_quotaoff_log_item_def

lemmas ex_types =
  struct_def ex_log_item_def ex_buf_log_item_def ex_inode_log_item_def ex_efi_log_item_def
  ex_efd_log_item_def ex_dq_logitem_def ex_qoff_logitem_def ex_inode_def ex_mount_p_def
  ex_buf_p_def ex_ail_old_def ex_ail_new_def ex_bio_def

lemma ex_tags:
  "read_field ex_img (ex_item 0x2000) ''li_type'' = Inr XFS_LI_BUF"
  "read_field ex_img (ex_item 0x3008) ''li_type'' = Inr XFS_LI_INODE"
  "read_field ex_img (ex_item 0x4000) ''li_type'' = Inr XFS_LI_IUNLINK"
  "read_field ex_img (ex_item 0x5008) ''li_type'' = Inr XFS_LI_EFD"
  "read_field ex_img (ex_item 0x6000) ''li_type'' = Inr 0x1239"
  by (simp_all add: read_field_def offset_of_def ex_item_def ex_log_item_def struct_def
      ex_img_def XFS_LI_defs)

lemma ex_embeds: "embeds_log_item ex_cls"
  by (simp add: embeds_log_item_def has_field_def ex_cls_def ex_types)

lemma conversion_spec:
  assumes "r = (if t \<noteq> tag then Inl (TypeError msg) else container_of a D F)"
  shows "(t \<noteq> tag \<longrightarrow> r = Inl (TypeError msg))
         \<and> (t = tag \<longrightarrow> r = container_of a D F)
         \<and> (has_field D F \<longrightarrow>
              (isl r \<longleftrightarrow> t \<noteq> tag) \<and> (t = tag \<longrightarrow> (\<exists>v. r = Inr v \<and> tv_type v = D)))"
proof (intro conjI impI)
  assume "has_field D F"
  from container_of_has_field[OF this, of a]
  obtain v where v: "container_of a D F = Inr v" "tv_type v = D" by blast
  show "isl r \<longleftrightarrow> t \<noteq> tag" using v assms by simp
  show "\<exists>v. r = Inr v \<and> tv_type v = D" if "t = tag" using v assms that by simp
qed (simp_all add: assms)

text \<open>
  Claim C6. Each conversion reads the item's tag. When the tag is not the variant's, it
  raises its \<open>TypeError\<close>; when it is, the result is that of \<open>container_of\<close> on the
  item's address with the variant's type and the variant's member name. Where the
  variant's type has that member, the conversion raises if and only if the tag is not
  the variant's, and on a matching tag returns a value of the variant's type.
\<close>

theorem per_variant_conversions:
  assumes tag: "read_field img item ''li_type'' = Inr t"
  shows
    "(t \<noteq> XFS_LI_BUF \<longrightarrow>
        item_to_buf_log_item cls img item = Inl (TypeError ''item is not a buf log item''))
     \<and> (t = XFS_LI_BUF \<longrightarrow>
        item_to_buf_log_item cls img item
          = container_of (tv_address item) (xfs_buf_log_item_type cls) ''bli_item'')
     \<and> (has_field (xfs_buf_log_item_type cls) ''bli_item'' \<longrightarrow>
        (isl (item_to_buf_log_item cls img item) \<longleftrightarrow> t \<noteq> XFS_LI_BUF)
        \<and> (t = XFS_LI_BUF \<longrightarrow>
             (\<exists>v. item_to_buf_log_item cls img item = Inr v
                 \<and> tv_type v = xfs_buf_log_item_type cls)))
     \<and> (t \<noteq> XFS_LI_INODE \<longrightarrow>
        item_to_inode_log_item cls img item = Inl (TypeError ''item is not an inode log item''))
     \<and> (t = XFS_LI_INODE \<longrightarrow>
        item_to_inode_log_item cls img item
          = container_of (tv_address item) (xfs_inode_log_item_type cls) ''ili_item'')
     \<and> (has_field (xfs_inode_log_item_type cls) ''ili_item'' \<longrightarrow>
        (isl (item_to_inode_log_item cls img item) \<longleftrightarrow> t \<noteq> XFS_LI_INODE)
        \<and> (t = XFS_LI_INODE \<longrightarrow>
             (\<exists>v. item_to_inode_log_item cls img item = Inr v
                 \<and> tv_type v = xfs_inode_log_item_type cls)))
     \<and> (t \<noteq> XFS_LI_EFI \<longrightarrow>
        item_to_efi_log_item cls img item = Inl (TypeError ''item is not an EFI log item''))
     \<and> (t = XFS_LI_EFI \<longrightarrow>
        item_to_efi_log_item cls img item
          = container_of (tv_address item) (xfs_efi_log_item_type cls) ''efi_item'')
     \<and> (has_field (xfs_efi_log_item_type cls) ''efi_item'' \<longrightarrow>
        (isl (item_to_efi_log_item cls img item) \<longleftrightarrow> t \<noteq> XFS_LI_EFI)
        \<and> (t = XFS_LI_EFI \<longrightarrow>
             (\<exists>v. item_to_efi_log_item cls img item = Inr v
                 \<and> tv_type v = xfs_efi_log_item_type cls)))
     \<and> (t \<noteq> XFS_LI_EFD \<longrightarrow>
        item_to_efd_log_item cls img item = Inl (TypeError ''item is not an EFD log item''))
     \<and> (t = XFS_LI_EFD \<longrightarrow>
        item_to_efd_log_item cls img item
          = container_of (tv_address item) (xfs_efd_log_item_type cls) ''efd_item'')
     \<and> (has_field (xfs_efd_log_item_type cls) ''efd_item'' \<longrightarrow>
        (isl (item_to_efd_log_item cls img item) \<longleftrightarrow> t \<noteq> XFS_LI_EFD)
        \<and> (t = XFS_LI_EFD \<longrightarrow>
             (\<exists>v. item_to_efd_log_item cls img item = Inr v
                 \<and> tv_type v = xfs_efd_log_item_type cls)))
     \<and> (t \<noteq> XFS_LI_DQUOT \<longrightarrow>
        item_to_dquot_log_item cls img item = Inl (TypeError ''item is not an DQUOT log item''))
     \<and> (t = XFS_LI_DQUOT \<longrightarrow>
        item_to_dquot_log_item cls img item
          = container_of (tv_address item) (xfs_dq_logitem_type cls) ''qli_item'')
     \<and> (has_field (xfs_dq_logitem_type cls) ''qli_item'' \<longrightarrow>
        (isl (item_to_dquot_log_item cls img item) \<longleftrightarrow> t \<noteq> XFS_LI_DQUOT)
        \<and> (t = XFS_LI_DQUOT \<longrightarrow>
             (\<exists>v. item_to_dquot_log_item cls img item = Inr v
                 \<and> tv_type v = xfs_dq_logitem_type cls)))
     \<and> (t \<noteq> XFS_LI_QUOTAOFF \<longrightarrow>
        item_to_quotaoff_log_item cls img item
          = Inl (TypeError ''item is not an QUOTAOFF log item''))
     \<and> (t = XFS_LI_QUOTAOFF \<longrightarrow>
        item_to_quotaoff_log_item cls img item
          = container_of (tv_address item) (xfs_qoff_logitem_type cls) ''qql_item'')
     \<and> (has_field (xfs_qoff_logitem_type cls) ''qql_item'' \<longrightarrow>
        (isl (item_to_quotaoff_log_item cls img item) \<longleftrightarrow> t \<noteq> XFS_LI_QUOTAOFF)
        \<and> (t = XFS_LI_QUOTAOFF \<longrightarrow>
             (\<exists>v. item_to_quotaoff_log_item cls img item = Inr v
                 \<and> tv_type v = xfs_qoff_logitem_type cls)))"
proof -
  have buf: "item_to_buf_log_item cls img item
      = (if t \<noteq> XFS_LI_BUF then Inl (TypeError ''item is not a buf log item'')
         else container_of (tv_address item) (xfs_buf_log_item_type cls) ''bli_item'')"
    and inode: "item_to_inode_log_item cls img item
      = (if t \<noteq> XFS_LI_INODE then Inl (TypeError ''item is not an inode log item'')
         else container_of (tv_address item) (xfs_inode_log_item_type cls) ''ili_item'')"
    and efi: "item_to_efi_log_item cls img item
      = (if t \<noteq> XFS_LI_EFI then Inl (TypeError ''item is not an EFI log item'')
         else container_of (tv_address item) (xfs_efi_log_item_type cls) ''efi_item'')"
    and efd: "item_to_efd_log_item cls img item
      = (if t \<noteq> XFS_LI_EFD then Inl (TypeError ''item is not an EFD log item'')
         else container_of (tv_address item) (xfs_efd_log_item_type cls) ''efd_item'')"
    and dquot: "item_to_dquot_log_item cls img item
      = (if t \<noteq> XFS_LI_DQUOT then Inl (TypeError ''item is not an DQUOT log item'')
         else container_of (tv_address item) (xfs_dq_logitem_type cls) ''qli_item'')"
    and qoff: "item_to_quotaoff_log_item cls img item
      = (if t \<noteq> XFS_LI_QUOTAOFF then Inl (TypeError ''item is not an QUOTAOFF log item'')
         else container_of (tv_address item) (xfs_qoff_logitem_type cls) ''qql_item'')"
    by (simp_all add: item_to_defs tag)
  from conversion_spec[OF buf] conversion_spec[OF inode] conversion_spec[OF efi]
    conversion_spec[OF efd] conversion_spec[OF dquot] conversion_spec[OF qoff]
  show ?thesis
    by (elim conjE, intro conjI) assumption+
qed

theorem per_variant_conversions_witness:
  "read_field ex_img (ex_item 0x3008) ''li_type'' = Inr XFS_LI_INODE
   \<and> has_field (xfs_inode_log_item_type ex_cls) ''ili_item''
   \<and> has_field (xfs_buf_log_item_type ex_cls) ''bli_item''
   \<and> item_to_inode_log_item ex_cls ex_img (ex_item 0x3008)
       = Inr \<lparr>tv_address = 0x3000, tv_type = ex_inode_log_item\<rparr>
   \<and> item_to_buf_log_item ex_cls ex_img (ex_item 0x3008)
       = Inl (TypeError ''item is not a buf log item'')"
proof -
  have f: "has_field (xfs_inode_log_item_type ex_cls) ''ili_item''"
    "has_field (xfs_buf_log_item_type ex_cls) ''bli_item''"
    using ex_embeds by (simp_all add: embeds_log_item_def)
  have c: "container_of (tv_address (ex_item 0x3008)) (xfs_inode_log_item_type ex_cls) ''ili_item''
      = Inr \<lparr>tv_address = 0x3000, tv_type = ex_inode_log_item\<rparr>"
    by (simp add: container_of_def offset_of_def ex_item_def ex_cls_def ex_inode_log_item_def
        struct_def)
  from per_variant_conversions [OF ex_tags(2), of ex_cls] f c ex_tags(2) show ?thesis
    by (simp add: XFS_LI_defs)
qed

lemma as_structure_container_of:
  assumes "has_field D F"
  shows "\<exists>v. container_of a D F = Inr v \<and> tv_type v = D
           \<and> offset_of D F = Inr (nat (a - tv_address v))
           \<and> as_structure (container_of a D F) = Inr (Structure v)"
  using container_of_has_field[OF assms, of a] by (auto simp: as_structure_def)

lemma dispatch_variant:
  assumes "has_field D F" and "r = as_structure (container_of a D F)"
  shows "\<exists>v. container_of a D F = Inr v \<and> tv_type v = D
           \<and> offset_of D F = Inr (nat (a - tv_address v))
           \<and> r = Inr (Structure v)"
  using as_structure_container_of[OF assms(1), of a] assms(2) by simp

lemma as_structure_not_bare: "as_structure r \<noteq> Inr (BareTag n)"
  by (simp add: as_structure_def split: sum.split)

lemma xfs_log_item_typed_known:
  assumes tag: "read_field img item ''li_type'' = Inr t"
  shows "t = XFS_LI_BUF \<Longrightarrow> xfs_log_item_typed cls img item
      = as_structure (container_of (tv_address item) (xfs_buf_log_item_type cls) ''bli_item'')"
    and "t = XFS_LI_INODE \<Longrightarrow> xfs_log_item_typed cls img item
      = as_structure (container_of (tv_address item) (xfs_inode_log_item_type cls) ''ili_item'')"
    and "t = XFS_LI_EFI \<Longrightarrow> xfs_log_item_typed cls img item
      = as_structure (container_of (tv_address item) (xfs_efi_log_item_type cls) ''efi_item'')"
    and "t = XFS_LI_EFD \<Longrightarrow> xfs_log_item_typed cls img item
      = as_structure (container_of (tv_address item) (xfs_efd_log_item_type cls) ''efd_item'')"
    and "t = XFS_LI_DQUOT \<Longrightarrow> xfs_log_item_typed cls img item
      = as_structure (container_of (tv_address item) (xfs_dq_logitem_type cls) ''qli_item'')"
    and "t = XFS_LI_QUOTAOFF \<Longrightarrow> xfs_log_item_typed cls img item
      = as_structure (container_of (tv_address item) (xfs_qoff_logitem_type cls) ''qql_item'')"
  by (simp_all add: xfs_log_item_typed_def item_to_defs tag XFS_LI_defs)

text \<open>
  Claim C1. Let the item's tag be \<open>t\<close> and let the resolved types embed the generic
  header. For each of the six tags with a structure, \<open>xfs_log_item_typed\<close> returns the
  value of the variant's type that \<open>container_of\<close> computes from the item's address and
  the variant's member. For the unlink tag it returns the tag. For a tag outside the
  seven it raises \<open>RuntimeError\<close> with a message that ends in the tag in hexadecimal;
  no other tag has that message.
\<close>

theorem xfs_log_item_typed_dispatch:
  assumes tag: "read_field img item ''li_type'' = Inr t"
      and emb: "embeds_log_item cls"
  shows
    "(t = XFS_LI_BUF \<longrightarrow>
        (\<exists>v. container_of (tv_address item) (xfs_buf_log_item_type cls) ''bli_item'' = Inr v
            \<and> tv_type v = xfs_buf_log_item_type cls
            \<and> offset_of (xfs_buf_log_item_type cls) ''bli_item''
                = Inr (nat (tv_address item - tv_address v))
            \<and> xfs_log_item_typed cls img item = Inr (Structure v)))
     \<and> (t = XFS_LI_INODE \<longrightarrow>
        (\<exists>v. container_of (tv_address item) (xfs_inode_log_item_type cls) ''ili_item'' = Inr v
            \<and> tv_type v = xfs_inode_log_item_type cls
            \<and> offset_of (xfs_inode_log_item_type cls) ''ili_item''
                = Inr (nat (tv_address item - tv_address v))
            \<and> xfs_log_item_typed cls img item = Inr (Structure v)))
     \<and> (t = XFS_LI_EFI \<longrightarrow>
        (\<exists>v. container_of (tv_address item) (xfs_efi_log_item_type cls) ''efi_item'' = Inr v
            \<and> tv_type v = xfs_efi_log_item_type cls
            \<and> offset_of (xfs_efi_log_item_type cls) ''efi_item''
                = Inr (nat (tv_address item - tv_address v))
            \<and> xfs_log_item_typed cls img item = Inr (Structure v)))
     \<and> (t = XFS_LI_EFD \<longrightarrow>
        (\<exists>v. container_of (tv_address item) (xfs_efd_log_item_type cls) ''efd_item'' = Inr v
            \<and> tv_type v = xfs_efd_log_item_type cls
            \<and> offset_of (xfs_efd_log_item_type cls) ''efd_item''
                = Inr (nat (tv_address item - tv_address v))
            \<and> xfs_log_item_typed cls img item = Inr (Structure v)))
     \<and> (t = XFS_LI_DQUOT \<longrightarrow>
        (\<exists>v. container_of (tv_address item) (xfs_dq_logitem_type cls) ''qli_item'' = Inr v
            \<and> tv_type v = xfs_dq_logitem_type cls
            \<and> offset_of (xfs_dq_logitem_type cls) ''qli_item''
                = Inr (nat (tv_address item - tv_address v))
            \<and> xfs_log_item_typed cls img item = Inr (Structure v)))
     \<and> (t = XFS_LI_QUOTAOFF \<longrightarrow>
        (\<exists>v. container_of (tv_address item) (xfs_qoff_logitem_type cls) ''qql_item'' = Inr v
            \<and> tv_type v = xfs_qoff_logitem_type cls
            \<and> offset_of (xfs_qoff_logitem_type cls) ''qql_item''
                = Inr (nat (tv_address item - tv_address v))
            \<and> xfs_log_item_typed cls img item = Inr (Structure v)))
     \<and> (t = XFS_LI_IUNLINK \<longrightarrow>
        xfs_log_item_typed cls img item = Inr (BareTag XFS_LI_IUNLINK))
     \<and> (t \<notin> set known_tags \<longrightarrow>
        xfs_log_item_typed cls img item
          = Inl (RuntimeError (''Unknown AIL item type '' @ format_x t))
        \<and> (\<forall>t'. ''Unknown AIL item type '' @ format_x t'
                 = ''Unknown AIL item type '' @ format_x t \<longrightarrow> t' = t))"
proof -
  note e = emb[unfolded embeds_log_item_def]
  note k = xfs_log_item_typed_known[OF tag, of cls]
  have unlink: "t = XFS_LI_IUNLINK \<Longrightarrow>
      xfs_log_item_typed cls img item = Inr (BareTag XFS_LI_IUNLINK)"
    by (simp add: xfs_log_item_typed_def tag XFS_LI_defs)
  have unknown: "t \<notin> set known_tags \<Longrightarrow> xfs_log_item_typed cls img item
      = Inl (RuntimeError (''Unknown AIL item type '' @ format_x t))"
    by (simp add: xfs_log_item_typed_def tag known_tags_def)
  have inj: "\<forall>t'. ''Unknown AIL item type '' @ format_x t'
                 = ''Unknown AIL item type '' @ format_x t \<longrightarrow> t' = t"
    using format_x_inj by simp
  have c1: "t = XFS_LI_BUF \<longrightarrow>
        (\<exists>v. container_of (tv_address item) (xfs_buf_log_item_type cls) ''bli_item'' = Inr v
            \<and> tv_type v = xfs_buf_log_item_type cls
            \<and> offset_of (xfs_buf_log_item_type cls) ''bli_item''
                = Inr (nat (tv_address item - tv_address v))
            \<and> xfs_log_item_typed cls img item = Inr (Structure v))"
    using dispatch_variant[OF _ k(1)] e by blast
  have c2: "t = XFS_LI_INODE \<longrightarrow>
        (\<exists>v. container_of (tv_address item) (xfs_inode_log_item_type cls) ''ili_item'' = Inr v
            \<and> tv_type v = xfs_inode_log_item_type cls
            \<and> offset_of (xfs_inode_log_item_type cls) ''ili_item''
                = Inr (nat (tv_address item - tv_address v))
            \<and> xfs_log_item_typed cls img item = Inr (Structure v))"
    using dispatch_variant[OF _ k(2)] e by blast
  have c3: "t = XFS_LI_EFI \<longrightarrow>
        (\<exists>v. container_of (tv_address item) (xfs_efi_log_item_type cls) ''efi_item'' = Inr v
            \<and> tv_type v = xfs_efi_log_item_type cls
            \<and> offset_of (xfs_efi_log_item_type cls) ''efi_item''
                = Inr (nat (tv_address item - tv_address v))
            \<and> xfs_log_item_typed cls img item = Inr (Structure v))"
    using dispatch_variant[OF _ k(3)] e by blast
  have c4: "t = XFS_LI_EFD \<longrightarrow>
        (\<exists>v. container_of (tv_address item) (xfs_efd_log_item_type cls) ''efd_item'' = Inr v
            \<and> tv_type v = xfs_efd_log_item_type cls
            \<and> offset_of (xfs_efd_log_item_type cls) ''efd_item''
                = Inr (nat (tv_address item - tv_address v))
            \<and> xfs_log_item_typed cls img item = Inr (Structure v))"
    using dispatch_variant[OF _ k(4)] e by blast
  have c5: "t = XFS_LI_DQUOT \<longrightarrow>
        (\<exists>v. container_of (tv_address item) (xfs_dq_logitem_type cls) ''qli_item'' = Inr v
            \<and> tv_type v = xfs_dq_logitem_type cls
            \<and> offset_of (xfs_dq_logitem_type cls) ''qli_item''
                = Inr (nat (tv_address item - tv_address v))
            \<and> xfs_log_item_typed cls img item = Inr (Structure v))"
    using dispatch_variant[OF _ k(5)] e by blast
  have c6: "t = XFS_LI_QUOTAOFF \<longrightarrow>
        (\<exists>v. container_of (tv_address item) (xfs_qoff_logitem_type cls) ''qql_item'' = Inr v
            \<and> tv_type v = xfs_qoff_logitem_type cls
            \<and> offset_of (xfs_qoff_logitem_type cls) ''qql_item''
                = Inr (nat (tv_address item - tv_address v))
            \<and> xfs_log_item_typed cls img item = Inr (Structure v))"
    using dispatch_variant[OF _ k(6)] e by blast
  from c1 c2 c3 c4 c5 c6 unlink unknown inj show ?thesis
    by (intro conjI impI) (assumption | erule (1) mp | simp (no_asm_simp))+
qed

theorem xfs_log_item_typed_dispatch_witness:
  "read_field ex_img (ex_item 0x6000) ''li_type'' = Inr 0x1239
   \<and> read_field ex_img (ex_item 0x3008) ''li_type'' = Inr XFS_LI_INODE
   \<and> embeds_log_item ex_cls
   \<and> 0x1239 \<notin> set known_tags
   \<and> xfs_log_item_typed ex_cls ex_img (ex_item 0x6000)
       = Inl (RuntimeError ''Unknown AIL item type 1239'')
   \<and> xfs_log_item_typed ex_cls ex_img (ex_item 0x3008)
       = Inr (Structure \<lparr>tv_address = 0x3000, tv_type = ex_inode_log_item\<rparr>)"
proof -
  have u: "(0x1239::int) \<notin> set known_tags"
    by (simp add: known_tags_def XFS_LI_defs)
  have x: "format_x 0x1239 = ''1239''"
    by (simp add: format_x_def hex_nat.simps hex_digit_def)
  have c: "container_of (tv_address (ex_item 0x3008)) (xfs_inode_log_item_type ex_cls) ''ili_item''
      = Inr \<lparr>tv_address = 0x3000, tv_type = ex_inode_log_item\<rparr>"
    by (simp add: container_of_def offset_of_def ex_item_def ex_cls_def ex_inode_log_item_def
        struct_def)
  note d1 = xfs_log_item_typed_dispatch [OF ex_tags(5) ex_embeds]
  from d1 u have r1: "xfs_log_item_typed ex_cls ex_img (ex_item 0x6000)
      = Inl (RuntimeError (''Unknown AIL item type '' @ format_x 0x1239))"
    by blast
  note d2 = xfs_log_item_typed_dispatch [OF ex_tags(2) ex_embeds]
  from d2 obtain v
    where "container_of (tv_address (ex_item 0x3008)) (xfs_inode_log_item_type ex_cls) ''ili_item''
             = Inr v"
      and "xfs_log_item_typed ex_cls ex_img (ex_item 0x3008) = Inr (Structure v)"
    by blast
  with c have r2: "xfs_log_item_typed ex_cls ex_img (ex_item 0x3008)
      = Inr (Structure \<lparr>tv_address = 0x3000, tv_type = ex_inode_log_item\<rparr>)"
    by simp
  from r1 x have r1': "xfs_log_item_typed ex_cls ex_img (ex_item 0x6000)
      = Inl (RuntimeError ''Unknown AIL item type 1239'')"
    by simp
  show ?thesis
    by (intro conjI) (rule ex_tags(5) ex_tags(2) ex_embeds u r1' r2)+
qed

text \<open>
  Claim C2. For an item whose tag is the unlink tag, \<open>xfs_log_item_typed\<close> returns the
  bare tag. For every other tag it never returns a bare tag, and for each of the other
  six known tags its result is that of the variant's \<open>container_of\<close> downcast.
\<close>

theorem unlink_tag_is_bare:
  assumes tag: "read_field img item ''li_type'' = Inr t"
  shows
    "(t = XFS_LI_IUNLINK \<longrightarrow>
        xfs_log_item_typed cls img item = Inr (BareTag XFS_LI_IUNLINK))
     \<and> (t \<noteq> XFS_LI_IUNLINK \<longrightarrow> (\<forall>n. xfs_log_item_typed cls img item \<noteq> Inr (BareTag n)))
     \<and> (t = XFS_LI_BUF \<longrightarrow> xfs_log_item_typed cls img item
          = as_structure (container_of (tv_address item) (xfs_buf_log_item_type cls) ''bli_item''))
     \<and> (t = XFS_LI_INODE \<longrightarrow> xfs_log_item_typed cls img item
          = as_structure
              (container_of (tv_address item) (xfs_inode_log_item_type cls) ''ili_item''))
     \<and> (t = XFS_LI_EFI \<longrightarrow> xfs_log_item_typed cls img item
          = as_structure (container_of (tv_address item) (xfs_efi_log_item_type cls) ''efi_item''))
     \<and> (t = XFS_LI_EFD \<longrightarrow> xfs_log_item_typed cls img item
          = as_structure (container_of (tv_address item) (xfs_efd_log_item_type cls) ''efd_item''))
     \<and> (t = XFS_LI_DQUOT \<longrightarrow> xfs_log_item_typed cls img item
          = as_structure (container_of (tv_address item) (xfs_dq_logitem_type cls) ''qli_item''))
     \<and> (t = XFS_LI_QUOTAOFF \<longrightarrow> xfs_log_item_typed cls img item
          = as_structure
              (container_of (tv_address item) (xfs_qoff_logitem_type cls) ''qql_item''))"
  by (simp add: xfs_log_item_typed_def item_to_defs tag XFS_LI_defs as_structure_not_bare)

theorem unlink_tag_is_bare_witness:
  "read_field ex_img (ex_item 0x4000) ''li_type'' = Inr XFS_LI_IUNLINK
   \<and> xfs_log_item_typed ex_cls ex_img (ex_item 0x4000) = Inr (BareTag 0x1238)
   \<and> read_field ex_img (ex_item 0x2000) ''li_type'' = Inr XFS_LI_BUF
   \<and> xfs_log_item_typed ex_cls ex_img (ex_item 0x2000)
       = Inr (Structure \<lparr>tv_address = 0x2000, tv_type = ex_buf_log_item\<rparr>)"
proof -
  have c: "container_of (tv_address (ex_item 0x2000)) (xfs_buf_log_item_type ex_cls) ''bli_item''
      = Inr \<lparr>tv_address = 0x2000, tv_type = ex_buf_log_item\<rparr>"
    by (simp add: container_of_def offset_of_def ex_item_def ex_cls_def ex_buf_log_item_def
        struct_def)
  from unlink_tag_is_bare [OF ex_tags(3), of ex_cls] unlink_tag_is_bare [OF ex_tags(1), of ex_cls]
    c ex_tags(3) ex_tags(1)
  show ?thesis
    by (simp add: XFS_LI_defs as_structure_def)
qed

subsection \<open>The list walker\<close>

lemma walk_at_head: "walk img head D F budget steps last_good head = ([], None)"
  by (cases budget) simp_all

lemma read_link:
  "offset_of D F = Inr off \<Longrightarrow>
   read_field img (payload D off a) F
     = (case img a of None \<Rightarrow> Inl (MemoryAccessError a) | Some x \<Rightarrow> Inr x)"
  by (simp add: read_field_def payload_def split: option.split)

lemma container_of_payload:
  "offset_of D F = Inr off \<Longrightarrow> container_of a D F = Inr (payload D off a)"
  by (simp add: container_of_def payload_def)

lemma walk_step:
  assumes "offset_of D F = Inr off" and "cur \<noteq> head" and "img cur = Some nxt"
  shows "walk img head D F (Suc budget) steps last_good cur =
           (payload D off cur # fst (walk img head D F budget (Suc steps) cur nxt),
            snd (walk img head D F budget (Suc steps) cur nxt))"
  using assms by (simp add: container_of_payload read_link split: prod.split)

lemma walk_ring:
  assumes off: "offset_of D F = Inr off"
  shows "ring img head cur rest \<Longrightarrow> cur \<noteq> head \<Longrightarrow> length rest < budget \<Longrightarrow>
         walk img head D F budget steps last_good cur = (map (payload D off) (cur # rest), None)"
proof (induction rest arbitrary: cur budget steps last_good)
  case Nil
  then obtain b where b: "budget = Suc b" by (cases budget) auto
  from Nil have nxt: "img cur = Some head" by simp
  show ?case
    unfolding b using walk_step[where img=img and cur=cur, OF off Nil(2) nxt]
    by (simp add: walk_at_head)
next
  case (Cons a rest)
  then obtain b where b: "budget = Suc b" by (cases budget) auto
  from Cons.prems have nxt: "img cur = Some a" and a: "a \<noteq> head" and r: "ring img head a rest"
    by simp_all
  from Cons.prems b have len: "length rest < b" by simp
  show ?case
    unfolding b
    using walk_step[where img=img and cur=cur, OF off Cons.prems(2) nxt] Cons.IH[OF r a len]
    by simp
qed

lemma walk_open_chain:
  assumes off: "offset_of D F = Inr off"
  shows "open_chain img head cur rest \<Longrightarrow> cur \<noteq> head \<Longrightarrow> length rest = budget \<Longrightarrow>
         walk img head D F budget steps last_good cur =
           (map (payload D off) (butlast (cur # rest)),
            Some (CorruptListError (steps + budget) (last (last_good # butlast (cur # rest)))))"
proof (induction budget arbitrary: cur rest steps last_good)
  case 0
  then show ?case by simp
next
  case (Suc b)
  then obtain a rest' where rest: "rest = a # rest'" by (cases rest) auto
  from Suc.prems rest have nxt: "img cur = Some a" and a: "a \<noteq> head"
    and r: "open_chain img head a rest'" and len: "length rest' = b"
    by simp_all
  show ?case
    using walk_step[where img=img and cur=cur, OF off Suc.prems(2) nxt] Suc.IH[OF r a len]
    by (simp add: rest)
qed

lemma walk_length: "length (fst (walk img head D F budget steps last_good cur)) \<le> budget"
proof (induction budget arbitrary: steps last_good cur)
  case 0
  then show ?case by simp
next
  case (Suc budget)
  have "length (fst (case walk img head D F budget (Suc steps) cur nxt of
                       (rest, outcome) \<Rightarrow> (entry # rest, outcome))) \<le> Suc budget"
    for entry nxt
    using Suc[of "Suc steps" cur nxt]
    by (cases "walk img head D F budget (Suc steps) cur nxt") simp
  then show ?case
    by (simp split: sum.split)
qed

lemma list_for_each_entry_of_ring:
  assumes "ring img head head nodes" and "offset_of D F = Inr off"
      and "length nodes \<le> step_ceiling"
  shows "list_for_each_entry step_ceiling img head D F = (map (payload D off) nodes, None)"
proof (cases nodes)
  case Nil
  with assms(1) show ?thesis by (simp add: list_for_each_entry_def walk_at_head)
next
  case (Cons a rest)
  with assms(1) have "img head = Some a" "a \<noteq> head" "ring img head a rest" by simp_all
  moreover from Cons assms(3) have "length rest < step_ceiling" by simp
  ultimately show ?thesis
    using walk_ring[OF assms(2), of img head a rest step_ceiling 0 head]
    by (simp add: list_for_each_entry_def Cons)
qed

lemma list_for_each_entry_of_open_chain:
  assumes ch: "open_chain img head head nodes" and len: "length nodes = Suc step_ceiling"
    and off: "offset_of D F = Inr off"
  shows "list_for_each_entry step_ceiling img head D F =
        (map (payload D off) (butlast nodes),
         Some (CorruptListError step_ceiling (last (head # butlast nodes))))"
proof -
  from len obtain a rest where nodes: "nodes = a # rest" by (cases nodes) auto
  with ch len have "img head = Some a" "a \<noteq> head" "open_chain img head a rest"
    "length rest = step_ceiling" by simp_all
  then show ?thesis
    using walk_open_chain[OF off, of img head a rest step_ceiling 0 head]
    by (simp add: list_for_each_entry_def nodes)
qed

lemma list_for_each_entry_length:
  "length (fst (list_for_each_entry step_ceiling img head D F)) \<le> step_ceiling"
  by (simp add: list_for_each_entry_def walk_length split: option.split)

lemma xfs_for_each_ail_entry_head:
  "ail_head_name cls = Some name \<Longrightarrow> offset_of (tv_type ail) name = Inr hoff \<Longrightarrow>
   xfs_for_each_ail_entry step_ceiling cls img ail
     = list_for_each_entry step_ceiling img (tv_address ail + int hoff)
         (xfs_log_item_type cls) ''li_ail''"
  by (simp add: xfs_for_each_ail_entry_def)

lemma ex_ring: "ring ex_img 0x1008 0x1008 [0x2000, 0x3008, 0x4000]"
  by (simp add: ex_img_def)

lemma ex_li_ail: "offset_of ex_log_item ''li_ail'' = Inr 0"
  by (simp add: offset_of_def ex_log_item_def struct_def)

lemma ex_ail_head:
  "offset_of (tv_type ex_ail) ''xa_ail'' = Inr 8" "tv_address ex_ail + int 8 = 0x1008"
  by (simp_all add: offset_of_def ex_ail_def ex_ail_old_def struct_def)

text \<open>
  Claim C3, as amended. For a ring of \<open>N\<close> links whose payload type has the link member,
  with \<open>N\<close> at most the step ceiling, the traversal yields the \<open>N\<close> payloads in link
  order and ends normally; so does \<open>xfs_for_each_ail_entry\<close> on an AIL whose recorded
  head member is the head of such a ring of log items.
\<close>

theorem list_for_each_entry_ring:
  assumes "ring img head head nodes" and "offset_of D F = Inr off"
      and "length nodes \<le> step_ceiling"
  shows "list_for_each_entry step_ceiling img head D F = (map (payload D off) nodes, None)
         \<and> length (fst (list_for_each_entry step_ceiling img head D F)) = length nodes
         \<and> (\<forall>cls ail name hoff.
               ail_head_name cls = Some name \<longrightarrow> offset_of (tv_type ail) name = Inr hoff \<longrightarrow>
               tv_address ail + int hoff = head \<longrightarrow> xfs_log_item_type cls = D \<longrightarrow>
               F = ''li_ail'' \<longrightarrow>
               xfs_for_each_ail_entry step_ceiling cls img ail
                 = (map (payload D off) nodes, None))"
proof -
  note r = list_for_each_entry_of_ring[OF assms]
  show ?thesis
  proof (intro conjI allI impI)
    show "list_for_each_entry step_ceiling img head D F = (map (payload D off) nodes, None)"
      by (rule r)
    show "length (fst (list_for_each_entry step_ceiling img head D F)) = length nodes"
      by (simp add: r)
  next
    fix cls :: xfs_cls and ail :: typed_value and name hoff
    assume "ail_head_name cls = Some name" "offset_of (tv_type ail) name = Inr hoff"
      "tv_address ail + int hoff = head" "xfs_log_item_type cls = D" "F = ''li_ail''"
    then show "xfs_for_each_ail_entry step_ceiling cls img ail
                 = (map (payload D off) nodes, None)"
      using r xfs_for_each_ail_entry_head[of cls name ail hoff step_ceiling img] by simp
  qed
qed

theorem list_for_each_entry_ring_witness:
  "ring ex_img 0x1008 0x1008 [0x2000, 0x3008, 0x4000]
   \<and> offset_of ex_log_item ''li_ail'' = Inr 0
   \<and> length [0x2000, 0x3008, 0x4000 :: int] \<le> 1000
   \<and> list_for_each_entry 1000 ex_img 0x1008 ex_log_item ''li_ail''
       = ([ex_item 0x2000, ex_item 0x3008, ex_item 0x4000], None)
   \<and> xfs_for_each_ail_entry 1000 (ex_cls\<lparr>ail_head_name := Some ''xa_ail''\<rparr>) ex_img ex_ail
       = ([ex_item 0x2000, ex_item 0x3008, ex_item 0x4000], None)"
proof -
  have len: "length [0x2000, 0x3008, 0x4000 :: int] \<le> 1000" by simp
  note t = list_for_each_entry_ring [OF ex_ring ex_li_ail len]
  have p: "map (payload ex_log_item 0) [0x2000, 0x3008, 0x4000]
             = [ex_item 0x2000, ex_item 0x3008, ex_item 0x4000]"
    by (simp add: payload_def ex_item_def)
  from t have a: "list_for_each_entry 1000 ex_img 0x1008 ex_log_item ''li_ail''
      = ([ex_item 0x2000, ex_item 0x3008, ex_item 0x4000], None)"
    unfolding p by (rule conjunct1)
  from t have "\<forall>cls ail name hoff.
               ail_head_name cls = Some name \<longrightarrow> offset_of (tv_type ail) name = Inr hoff \<longrightarrow>
               tv_address ail + int hoff = 0x1008 \<longrightarrow> xfs_log_item_type cls = ex_log_item \<longrightarrow>
               ''li_ail'' = ''li_ail'' \<longrightarrow>
               xfs_for_each_ail_entry 1000 cls ex_img ail
                 = ([ex_item 0x2000, ex_item 0x3008, ex_item 0x4000], None)"
    unfolding p by (elim conjE)
  from this[rule_format, of "ex_cls\<lparr>ail_head_name := Some ''xa_ail''\<rparr>" "''xa_ail''" ex_ail 8]
    ex_ail_head
  have b: "xfs_for_each_ail_entry 1000 (ex_cls\<lparr>ail_head_name := Some ''xa_ail''\<rparr>) ex_img ex_ail
      = ([ex_item 0x2000, ex_item 0x3008, ex_item 0x4000], None)"
    by (simp add: ex_cls_def)
  show ?thesis
    by (intro conjI) (rule ex_ring ex_li_ail len a b)+
qed

text \<open>
  The claim as stated, for every ring, fails where the ring is longer than the
  ceiling: with a ceiling of two steps, the ring of three items of the synthetic image
  yields two of them and fails with \<open>CorruptListError\<close>.
\<close>

theorem list_for_each_entry_ring_counterexample:
  "ring ex_img 0x1008 0x1008 [0x2000, 0x3008, 0x4000]
   \<and> offset_of ex_log_item ''li_ail'' = Inr 0
   \<and> list_for_each_entry 2 ex_img 0x1008 ex_log_item ''li_ail''
       = ([ex_item 0x2000, ex_item 0x3008], Some (CorruptListError 2 0x3008))
   \<and> list_for_each_entry 2 ex_img 0x1008 ex_log_item ''li_ail''
       \<noteq> (map (payload ex_log_item 0) [0x2000, 0x3008, 0x4000], None)"
proof -
  have oc: "open_chain ex_img 0x1008 0x1008 [0x2000, 0x3008, 0x4000]"
    by (simp add: ex_img_def)
  have len: "length [0x2000, 0x3008, 0x4000 :: int] = Suc 2" by simp
  from list_for_each_entry_of_open_chain[OF oc len ex_li_ail]
  have a: "list_for_each_entry 2 ex_img 0x1008 ex_log_item ''li_ail''
       = ([ex_item 0x2000, ex_item 0x3008], Some (CorruptListError 2 0x3008))"
    by (simp add: payload_def ex_item_def)
  have b: "list_for_each_entry 2 ex_img 0x1008 ex_log_item ''li_ail''
       \<noteq> (map (payload ex_log_item 0) [0x2000, 0x3008, 0x4000], None)"
    unfolding a by simp
  show ?thesis
    by (intro conjI) (rule ex_ring ex_li_ail a b)+
qed

lemma ring_open_chain: "ring img head prev nodes \<Longrightarrow> open_chain img head prev nodes"
  by (induction nodes arbitrary: prev) simp_all

text \<open>
  Whatever the ceiling, there is a ring with one node more: links at the addresses
  \<open>1, \<dots>, c + 1\<close> around the head at \<open>0\<close>. The traversal rejects it.
\<close>

lemma long_ring:
  "k \<le> Suc c \<Longrightarrow>
   ring (\<lambda>a. if 0 \<le> a \<and> a \<le> int c then Some (a + 1)
              else if a = int c + 1 then Some 0 else None)
     0 (int k) (map int [Suc k..<Suc (Suc c)])"
proof (induction "Suc c - k" arbitrary: k)
  case 0
  then have "k = Suc c" by simp
  then show ?case by simp
next
  case (Suc n)
  then have k: "k \<le> c" by simp
  then have "[Suc k..<Suc (Suc c)] = Suc k # [Suc (Suc k)..<Suc (Suc c)]"
    by (simp add: upt_conv_Cons)
  moreover from Suc(2) k have "n = Suc c - Suc k" by simp
  from Suc(1)[OF this] k
  have "ring (\<lambda>a. if 0 \<le> a \<and> a \<le> int c then Some (a + 1)
                    else if a = int c + 1 then Some 0 else None)
          0 (int (Suc k)) (map int [Suc (Suc k)..<Suc (Suc c)])"
    by simp
  ultimately show ?case using k by simp
qed

lemma ceiling_rejects_longer_ring:
  assumes "offset_of D F = Inr off"
  shows "\<exists>img head nodes.
           ring img head head nodes \<and> length nodes = Suc step_ceiling
           \<and> list_for_each_entry step_ceiling img head D F
               = (map (payload D off) (butlast nodes),
                  Some (CorruptListError step_ceiling (last (head # butlast nodes))))"
proof -
  let ?img = "\<lambda>a. if 0 \<le> a \<and> a \<le> int step_ceiling then Some (a + 1)
                   else if a = int step_ceiling + 1 then Some 0 else None"
  let ?nodes = "map int [Suc 0..<Suc (Suc step_ceiling)]"
  have r: "ring ?img 0 0 ?nodes"
    using long_ring[of 0 step_ceiling] by simp
  have len: "length ?nodes = Suc step_ceiling" by simp
  from list_for_each_entry_of_open_chain[OF ring_open_chain[OF r] len assms] r len
  show ?thesis by blast
qed

text \<open>
  Claim C4. Where the next pointers lead from the head through one link more than the
  step ceiling without reaching the head, the traversal yields as many payloads as
  the ceiling and fails with \<open>CorruptListError\<close> carrying the number of steps taken
  (the ceiling) and the link visited last; so does \<open>xfs_for_each_ail_entry\<close> on an AIL
  with such a head. On every input the traversal yields at most as many values as the
  ceiling.
\<close>

theorem list_for_each_entry_ceiling:
  "(open_chain img head head nodes \<longrightarrow> length nodes = Suc step_ceiling \<longrightarrow>
      offset_of D F = Inr off \<longrightarrow>
      list_for_each_entry step_ceiling img head D F =
        (map (payload D off) (butlast nodes),
         Some (CorruptListError step_ceiling (last (head # butlast nodes))))
      \<and> (\<forall>cls ail name hoff.
            ail_head_name cls = Some name \<longrightarrow> offset_of (tv_type ail) name = Inr hoff \<longrightarrow>
            tv_address ail + int hoff = head \<longrightarrow> xfs_log_item_type cls = D \<longrightarrow>
            F = ''li_ail'' \<longrightarrow>
            xfs_for_each_ail_entry step_ceiling cls img ail =
              (map (payload D off) (butlast nodes),
               Some (CorruptListError step_ceiling (last (head # butlast nodes))))))
   \<and> length (fst (list_for_each_entry step_ceiling img head D F)) \<le> step_ceiling"
proof (intro conjI impI allI)
  assume ch: "open_chain img head head nodes" and len: "length nodes = Suc step_ceiling"
    and off: "offset_of D F = Inr off"
  note r = list_for_each_entry_of_open_chain[OF ch len off]
  show "list_for_each_entry step_ceiling img head D F =
        (map (payload D off) (butlast nodes),
         Some (CorruptListError step_ceiling (last (head # butlast nodes))))"
    by (rule r)
  fix cls :: xfs_cls and ail :: typed_value and name hoff
  assume "ail_head_name cls = Some name" "offset_of (tv_type ail) name = Inr hoff"
    "tv_address ail + int hoff = head" "xfs_log_item_type cls = D" "F = ''li_ail''"
  then show "xfs_for_each_ail_entry step_ceiling cls img ail =
              (map (payload D off) (butlast nodes),
               Some (CorruptListError step_ceiling (last (head # butlast nodes))))"
    using r xfs_for_each_ail_entry_head[of cls name ail hoff step_ceiling img] by simp
next
  show "length (fst (list_for_each_entry step_ceiling img head D F)) \<le> step_ceiling"
    by (rule list_for_each_entry_length)
qed

theorem list_for_each_entry_ceiling_witness:
  "open_chain ex_img 0x9000 0x9000 [0x9100, 0x9200, 0x9100, 0x9200, 0x9100]
   \<and> length [0x9100, 0x9200, 0x9100, 0x9200, 0x9100 :: int] = Suc 4
   \<and> offset_of ex_log_item ''li_ail'' = Inr 0
   \<and> list_for_each_entry 4 ex_img 0x9000 ex_log_item ''li_ail''
       = ([ex_item 0x9100, ex_item 0x9200, ex_item 0x9100, ex_item 0x9200],
          Some (CorruptListError 4 0x9200))"
proof -
  have oc: "open_chain ex_img 0x9000 0x9000 [0x9100, 0x9200, 0x9100, 0x9200, 0x9100]"
    by (simp add: ex_img_def)
  have len: "length [0x9100, 0x9200, 0x9100, 0x9200, 0x9100 :: int] = Suc 4" by simp
  from list_for_each_entry_ceiling
    [of ex_img "0x9000" "[0x9100, 0x9200, 0x9100, 0x9200, 0x9100]" 4 ex_log_item "''li_ail''" 0]
    oc len ex_li_ail
  have a: "list_for_each_entry 4 ex_img 0x9000 ex_log_item ''li_ail''
       = ([ex_item 0x9100, ex_item 0x9200, ex_item 0x9100, ex_item 0x9200],
          Some (CorruptListError 4 0x9200))"
    by (simp add: payload_def ex_item_def)
  show ?thesis
    by (intro conjI) (rule oc len ex_li_ail a)+
qed

subsection \<open>The tag table\<close>

text \<open>
  Claim C10. The display of \<open>XFS_LI_TYPES\<close> writes the key \<open>XFS_LI_EFI\<close> twice, with the
  same name. The dict has exactly seven entries, its keys are the seven tag constants,
  each tag is mapped to its own name (\<open>XFS_LI_EFD\<close> included), and the dict is the one
  the display without the repeated item builds.
\<close>

theorem XFS_LI_TYPES_seven_entries:
  "length XFS_LI_TYPES = 7
   \<and> distinct (map fst XFS_LI_TYPES)
   \<and> map fst XFS_LI_TYPES = known_tags
   \<and> length XFS_LI_TYPES_items = 8
   \<and> XFS_LI_TYPES_items ! 0 = XFS_LI_TYPES_items ! 5
   \<and> map_of XFS_LI_TYPES XFS_LI_EFI = Some ''XFS_LI_EFI''
   \<and> map_of XFS_LI_TYPES XFS_LI_EFD = Some ''XFS_LI_EFD''
   \<and> map_of XFS_LI_TYPES XFS_LI_IUNLINK = Some ''XFS_LI_IUNLINK''
   \<and> map_of XFS_LI_TYPES XFS_LI_INODE = Some ''XFS_LI_INODE''
   \<and> map_of XFS_LI_TYPES XFS_LI_BUF = Some ''XFS_LI_BUF''
   \<and> map_of XFS_LI_TYPES XFS_LI_DQUOT = Some ''XFS_LI_DQUOT''
   \<and> map_of XFS_LI_TYPES XFS_LI_QUOTAOFF = Some ''XFS_LI_QUOTAOFF''
   \<and> XFS_LI_TYPES = dict_display (take 5 XFS_LI_TYPES_items @ drop 6 XFS_LI_TYPES_items)"
  unfolding XFS_LI_TYPES_value known_tags_def
  by (simp add: XFS_LI_TYPES_items_def dict_display_def XFS_LI_defs)

subsection \<open>Recording the AIL head name\<close>

lemma type_resolved_nothing_pending: "pending s = [] \<Longrightarrow> type_resolved name gdbtype s = s"
  by (simp add: type_resolved_def)

lemma resolve_all_nothing_pending: "pending s = [] \<Longrightarrow> resolve_all events s = s"
proof (induction events)
  case Nil
  then show ?case by (simp add: resolve_all_def)
next
  case (Cons ev events)
  obtain name gdbtype where ev: "ev = (name, gdbtype)" by (cases ev)
  have "resolve_all (ev # events) s = resolve_all events (type_resolved name gdbtype s)"
    by (simp add: resolve_all_def ev)
  with Cons show ?case by (simp add: type_resolved_nothing_pending)
qed

lemma type_resolved_xfs_ail:
  assumes "pending s = type_callbacks"
  shows "type_resolved ''struct xfs_ail'' gdbtype s
           = \<lparr>cls_state = detect_ail_version gdbtype (cls_state s), pending = []\<rparr>"
  by (simp add: type_resolved_def assms type_callbacks_def run_type_callback_def)

lemma type_resolved_other:
  assumes "pending s = type_callbacks" and "name \<noteq> ''struct xfs_ail''"
  shows "type_resolved name gdbtype s = s"
  using assms(2) by (simp add: type_resolved_def assms(1) type_callbacks_def)

lemma detect_ail_version_name:
  "ail_head_name (detect_ail_version gdbtype cls)
     = Some (if has_field gdbtype ''ail_head'' then ''ail_head'' else ''xa_ail'')"
  by (simp add: detect_ail_version_def)

lemma detect_ail_version_types:
  "xfs_log_item_type (detect_ail_version gdbtype cls) = xfs_log_item_type cls"
  by (simp add: detect_ail_version_def)

text \<open>
  Claim C7. In a session where the class's type callbacks are pending, resolving a type
  other than \<open>struct xfs_ail\<close> changes nothing. Resolving \<open>struct xfs_ail\<close> runs
  \<open>_detect_ail_version\<close>, which records \<open>ail_head\<close> when the resolved type has that
  member and \<open>xa_ail\<close> otherwise, and consumes the registration: no later resolution
  event, whatever type it resolves, changes the session again. Every later traversal
  takes the list head from the member of the recorded name, whatever other members the
  type of the AIL value has.
\<close>

theorem ail_head_name_recorded_once:
  assumes "pending s = type_callbacks"
  shows
    "(\<forall>name other. name \<noteq> ''struct xfs_ail'' \<longrightarrow> type_resolved name other s = s)
     \<and> ail_head_name (cls_state (type_resolved ''struct xfs_ail'' gdbtype s))
         = Some (if has_field gdbtype ''ail_head'' then ''ail_head'' else ''xa_ail'')
     \<and> pending (type_resolved ''struct xfs_ail'' gdbtype s) = []
     \<and> (\<forall>events. resolve_all events (type_resolved ''struct xfs_ail'' gdbtype s)
                   = type_resolved ''struct xfs_ail'' gdbtype s)
     \<and> (\<forall>events step_ceiling img ail.
           xfs_for_each_ail_entry step_ceiling
               (cls_state (resolve_all events (type_resolved ''struct xfs_ail'' gdbtype s)))
               img ail
             = (case offset_of (tv_type ail)
                       (if has_field gdbtype ''ail_head'' then ''ail_head'' else ''xa_ail'') of
                  Inl e \<Rightarrow> ([], Some e)
                | Inr off \<Rightarrow>
                    list_for_each_entry step_ceiling img (tv_address ail + int off)
                      (xfs_log_item_type (cls_state s)) ''li_ail''))"
proof -
  let ?s1 = "type_resolved ''struct xfs_ail'' gdbtype s"
  note s1 = type_resolved_xfs_ail[OF assms, of gdbtype]
  have other: "\<forall>name other. name \<noteq> ''struct xfs_ail'' \<longrightarrow> type_resolved name other s = s"
    using type_resolved_other[OF assms] by blast
  have name: "ail_head_name (cls_state ?s1)
      = Some (if has_field gdbtype ''ail_head'' then ''ail_head'' else ''xa_ail'')"
    unfolding s1 by (simp add: detect_ail_version_name)
  have consumed: "pending ?s1 = []"
    unfolding s1 by simp
  have later: "\<forall>events. resolve_all events ?s1 = ?s1"
    using resolve_all_nothing_pending[OF consumed] by blast
  have types: "xfs_log_item_type (cls_state ?s1) = xfs_log_item_type (cls_state s)"
    unfolding s1 by (simp add: detect_ail_version_types)
  have walk: "\<forall>events step_ceiling img ail.
           xfs_for_each_ail_entry step_ceiling (cls_state (resolve_all events ?s1)) img ail
             = (case offset_of (tv_type ail)
                       (if has_field gdbtype ''ail_head'' then ''ail_head'' else ''xa_ail'') of
                  Inl e \<Rightarrow> ([], Some e)
                | Inr off \<Rightarrow>
                    list_for_each_entry step_ceiling img (tv_address ail + int off)
                      (xfs_log_item_type (cls_state s)) ''li_ail'')"
  proof (intro allI)
    fix events step_ceiling img and ail :: typed_value
    from later have same: "resolve_all events ?s1 = ?s1" by blast
    show "xfs_for_each_ail_entry step_ceiling (cls_state (resolve_all events ?s1)) img ail
             = (case offset_of (tv_type ail)
                       (if has_field gdbtype ''ail_head'' then ''ail_head'' else ''xa_ail'') of
                  Inl e \<Rightarrow> ([], Some e)
                | Inr off \<Rightarrow>
                    list_for_each_entry step_ceiling img (tv_address ail + int off)
                      (xfs_log_item_type (cls_state s)) ''li_ail'')"
      by (simp only: same xfs_for_each_ail_entry_def name types option.case)
  qed
  show ?thesis
    by (intro conjI) (rule other name consumed later walk)+
qed

theorem ail_head_name_recorded_once_witness:
  "pending \<lparr>cls_state = ex_cls, pending = type_callbacks\<rparr> = type_callbacks
   \<and> ail_head_name
       (cls_state (type_resolved ''struct xfs_ail'' ex_ail_old
                     \<lparr>cls_state = ex_cls, pending = type_callbacks\<rparr>)) = Some ''xa_ail''
   \<and> ail_head_name
       (cls_state (type_resolved ''struct xfs_ail'' ex_ail_new
                     \<lparr>cls_state = ex_cls, pending = type_callbacks\<rparr>)) = Some ''ail_head''
   \<and> resolve_all [(''struct xfs_ail'', ex_ail_new)]
       (type_resolved ''struct xfs_ail'' ex_ail_old
          \<lparr>cls_state = ex_cls, pending = type_callbacks\<rparr>)
       = type_resolved ''struct xfs_ail'' ex_ail_old
           \<lparr>cls_state = ex_cls, pending = type_callbacks\<rparr>"
proof -
  let ?s = "\<lparr>cls_state = ex_cls, pending = type_callbacks\<rparr>"
  have p: "pending ?s = type_callbacks" by simp
  have old: "\<not> has_field ex_ail_old ''ail_head''" and new: "has_field ex_ail_new ''ail_head''"
    by (simp_all add: has_field_def ex_ail_old_def ex_ail_new_def struct_def)
  note t_old = ail_head_name_recorded_once [OF p, of ex_ail_old]
  note t_new = ail_head_name_recorded_once [OF p, of ex_ail_new]
  from t_old old have a: "ail_head_name
       (cls_state (type_resolved ''struct xfs_ail'' ex_ail_old ?s)) = Some ''xa_ail''"
    by simp
  from t_new new have b: "ail_head_name
       (cls_state (type_resolved ''struct xfs_ail'' ex_ail_new ?s)) = Some ''ail_head''"
    by simp
  from t_old have c: "resolve_all [(''struct xfs_ail'', ex_ail_new)]
       (type_resolved ''struct xfs_ail'' ex_ail_old ?s)
       = type_resolved ''struct xfs_ail'' ex_ail_old ?s"
    by blast
  show ?thesis
    by (intro conjI) (rule p a b c)+
qed

subsection \<open>The decoder chain\<close>

lemma follow_xfsbuf:
  assumes "decode_xfsbuf img h = Inr e"
  shows "follow (Suc fuel) cls img bdn Decode_xfsbuf h = Some ([e], None)"
  using assms
  by (auto simp: apply_decoder_def decode_xfsbuf_def split: sum.splits)

text \<open>
  Claim C8. Let the decoder of the xfs buffer completion routine be registered under the
  routine's identity, and let a bio carry that identity, a private-data pointer \<open>p\<close>
  and a device with a name; let the buffer at \<open>p\<close> be readable. With fuel for two
  entries or more, decoding the bio gives exactly two entries and ends normally. The
  first describes the bio and names as successor the buffer at \<open>p\<close> with the buffer
  decoder; the second describes the buffer by its offset, size and block number and
  names no successor.
\<close>

theorem decode_xfs_buf_bio_chain:
  assumes "read_field img b ''bi_end_io'' = Inr key"
      and "read_field img b ''bi_private'' = Inr p"
      and "read_field img b ''bi_bdev'' = Inr bdev"
      and "bdn bdev = Inr name"
      and "read_field img \<lparr>tv_address = p, tv_type = xfs_buf_p_type cls\<rparr> ''b_file_offset''
             = Inr b_file_offset"
      and "read_field img \<lparr>tv_address = p, tv_type = xfs_buf_p_type cls\<rparr> ''b_buffer_length''
             = Inr b_buffer_length"
      and "read_field img \<lparr>tv_address = p, tv_type = xfs_buf_p_type cls\<rparr> ''b_bn'' = Inr b_bn"
      and "2 \<le> fuel"
  shows "decode_bio fuel (register_xfs_buf_bio_end_io key reg) cls img bdn b =
           Some ([\<lparr>description = format_x (tv_address b) @ '' bio: xfs buffer on '' @ name,
                    fstype = ''xfs'',
                    bio = Some b,
                    devname = Some name,
                    xfsbuf = None,
                    next_handle = Some \<lparr>tv_address = p, tv_type = xfs_buf_p_type cls\<rparr>,
                    decode = Some Decode_xfsbuf\<rparr>,
                  \<lparr>description = format_x p @ '' xfsbuf: offset '' @ format_d b_file_offset
                                  @ '', size '' @ format_d b_buffer_length
                                  @ '', block number '' @ format_d b_bn,
                    fstype = ''xfs'',
                    bio = None,
                    devname = None,
                    xfsbuf = Some \<lparr>tv_address = p, tv_type = xfs_buf_p_type cls\<rparr>,
                    next_handle = None,
                    decode = None\<rparr>],
                 None)"
proof -
  let ?buf = "\<lparr>tv_address = p, tv_type = xfs_buf_p_type cls\<rparr>"
  from assms(8) obtain n where fuel: "fuel = Suc (Suc n)"
    by (metis Suc_le_D numeral_2_eq_2 Suc_le_mono)
  have second: "decode_xfsbuf img ?buf =
      Inr \<lparr>description = format_x p @ '' xfsbuf: offset '' @ format_d b_file_offset
                          @ '', size '' @ format_d b_buffer_length
                          @ '', block number '' @ format_d b_bn,
           fstype = ''xfs'', bio = None, devname = None, xfsbuf = Some ?buf,
           next_handle = None, decode = None\<rparr>"
    by (simp add: decode_xfsbuf_def assms(5,6,7))
  have first: "decode_xfs_buf_bio_end_io cls img bdn b =
      Inr \<lparr>description = format_x (tv_address b) @ '' bio: xfs buffer on '' @ name,
           fstype = ''xfs'', bio = Some b, devname = Some name, xfsbuf = None,
           next_handle = Some ?buf, decode = Some Decode_xfsbuf\<rparr>"
    by (simp add: decode_xfs_buf_bio_end_io_def assms(2,3,4))
  have reg: "register_xfs_buf_bio_end_io key reg key = Some Decode_xfs_buf_bio_end_io"
    by (simp add: register_xfs_buf_bio_end_io_def register_bio_decoder_def)
  note inner = follow_xfsbuf[OF second, of n cls bdn]
  have outer: "follow (Suc (Suc n)) cls img bdn Decode_xfs_buf_bio_end_io b =
      Some ([\<lparr>description = format_x (tv_address b) @ '' bio: xfs buffer on '' @ name,
              fstype = ''xfs'', bio = Some b, devname = Some name, xfsbuf = None,
              next_handle = Some ?buf, decode = Some Decode_xfsbuf\<rparr>,
             \<lparr>description = format_x p @ '' xfsbuf: offset '' @ format_d b_file_offset
                          @ '', size '' @ format_d b_buffer_length
                          @ '', block number '' @ format_d b_bn,
              fstype = ''xfs'', bio = None, devname = None, xfsbuf = Some ?buf,
              next_handle = None, decode = None\<rparr>], None)"
    by (subst follow.simps(2)) (simp add: apply_decoder_def first inner del: follow.simps)
  show ?thesis
    unfolding fuel
    by (simp add: decode_bio_def assms(1) reg outer del: follow.simps)
qed

theorem decode_xfs_buf_bio_chain_witness:
  "read_field ex_img \<lparr>tv_address = 0x7000, tv_type = ex_bio\<rparr> ''bi_end_io'' = Inr 0xa0001000
   \<and> read_field ex_img \<lparr>tv_address = 0x7000, tv_type = ex_bio\<rparr> ''bi_private'' = Inr 0x8000
   \<and> read_field ex_img \<lparr>tv_address = 0x7000, tv_type = ex_bio\<rparr> ''bi_bdev'' = Inr 0x7100
   \<and> ex_bdn 0x7100 = Inr ''sda1''
   \<and> (2::nat) \<le> 5
   \<and> decode_bio 5 (register_xfs_buf_bio_end_io 0xa0001000 Map.empty) ex_cls ex_img ex_bdn
        \<lparr>tv_address = 0x7000, tv_type = ex_bio\<rparr>
      = Some ([\<lparr>description = ''7000 bio: xfs buffer on sda1'',
                fstype = ''xfs'',
                bio = Some \<lparr>tv_address = 0x7000, tv_type = ex_bio\<rparr>,
                devname = Some ''sda1'',
                xfsbuf = None,
                next_handle = Some \<lparr>tv_address = 0x8000, tv_type = ex_buf_p\<rparr>,
                decode = Some Decode_xfsbuf\<rparr>,
               \<lparr>description = ''8000 xfsbuf: offset 4096, size 512, block number 8'',
                fstype = ''xfs'',
                bio = None,
                devname = None,
                xfsbuf = Some \<lparr>tv_address = 0x8000, tv_type = ex_buf_p\<rparr>,
                next_handle = None,
                decode = None\<rparr>],
              None)"
proof -
  let ?bio = "\<lparr>tv_address = 0x7000, tv_type = ex_bio\<rparr>"
  let ?buf = "\<lparr>tv_address = 0x8000, tv_type = xfs_buf_p_type ex_cls\<rparr>"
  have r: "read_field ex_img ?bio ''bi_end_io'' = Inr 0xa0001000"
    "read_field ex_img ?bio ''bi_private'' = Inr 0x8000"
    "read_field ex_img ?bio ''bi_bdev'' = Inr 0x7100"
    by (simp_all add: read_field_def offset_of_def ex_bio_def struct_def ex_img_def)
  have n: "ex_bdn 0x7100 = Inr ''sda1''"
    by (simp add: ex_bdn_def)
  have q: "read_field ex_img ?buf ''b_file_offset'' = Inr 4096"
    "read_field ex_img ?buf ''b_buffer_length'' = Inr 512"
    "read_field ex_img ?buf ''b_bn'' = Inr 8"
    by (simp_all add: read_field_def offset_of_def ex_cls_def ex_buf_p_def struct_def ex_img_def)
  have f: "(2::nat) \<le> 5" by simp
  have x: "format_x 0x7000 = ''7000''" "format_x 0x8000 = ''8000''"
    by (simp_all add: format_x_def hex_nat.simps hex_digit_def)
  have d: "format_d 4096 = ''4096''" "format_d 512 = ''512''" "format_d 8 = ''8''"
    by (simp_all add: format_d_def dec_nat.simps hex_digit_def)
  have t: "xfs_buf_p_type ex_cls = ex_buf_p" by (simp add: ex_cls_def)
  from decode_xfs_buf_bio_chain [where bdn = ex_bdn and reg = Map.empty,
      OF r(1) r(2) r(3) n q(1) q(2) q(3) f]
  have c: "decode_bio 5 (register_xfs_buf_bio_end_io 0xa0001000 Map.empty) ex_cls ex_img ex_bdn
        ?bio
      = Some ([\<lparr>description = ''7000 bio: xfs buffer on sda1'',
                fstype = ''xfs'',
                bio = Some ?bio,
                devname = Some ''sda1'',
                xfsbuf = None,
                next_handle = Some \<lparr>tv_address = 0x8000, tv_type = ex_buf_p\<rparr>,
                decode = Some Decode_xfsbuf\<rparr>,
               \<lparr>description = ''8000 xfsbuf: offset 4096, size 512, block number 8'',
                fstype = ''xfs'',
                bio = None,
                devname = None,
                xfsbuf = Some \<lparr>tv_address = 0x8000, tv_type = ex_buf_p\<rparr>,
                next_handle = None,
                decode = None\<rparr>],
              None)"
    by (simp add: x d t)
  show ?thesis
    by (intro conjI) (rule r n f c)+
qed

subsection \<open>The dump of the AIL\<close>

lemma dump_ail_item_not_efd: "dump_ail_item cls img itemno bitem \<noteq> Inr (h, Efd_body x)"
  by (simp add: dump_ail_item_def Let_def split: sum.split option.split typed_item.split)

text \<open>
  Claim C9. For no item does the loop body of \<open>dump_ail\<close> run the branch written for
  the extent-free-done items: its guard is the comparison with \<open>XFS_LI_EFI\<close> that the
  branch before it has already taken. An item whose tag is \<open>XFS_LI_EFD\<close> (with a
  readable sequence number, and a done-item type that embeds the header) reaches the
  last branch, which prints only the address of the typed item.
\<close>

theorem efd_branch_unreachable:
  "(\<forall>cls img itemno bitem h x. dump_ail_item cls img itemno bitem \<noteq> Inr (h, Efd_body x))
   \<and> (read_field img bitem ''li_type'' = Inr XFS_LI_EFD \<longrightarrow>
        read_field img bitem ''li_lsn'' = Inr lsn \<longrightarrow>
        offset_of (xfs_efd_log_item_type cls) ''efd_item'' = Inr off \<longrightarrow>
        dump_ail_item cls img itemno bitem
          = Inr (format_d itemno @ '': item='' @ format_x (tv_address bitem)
                   @ '' lsn='' @ format_d lsn @ '' EFD '',
                 Item_body (''item@'' @ format_x (tv_address bitem - int off))))"
proof (intro conjI allI impI)
  fix cls img itemno bitem h x
  show "dump_ail_item cls img itemno bitem \<noteq> Inr (h, Efd_body x)"
    by (rule dump_ail_item_not_efd)
next
  assume tag: "read_field img bitem ''li_type'' = Inr XFS_LI_EFD"
    and lsn: "read_field img bitem ''li_lsn'' = Inr lsn"
    and off: "offset_of (xfs_efd_log_item_type cls) ''efd_item'' = Inr off"
  have typed: "xfs_log_item_typed cls img bitem
      = Inr (Structure \<lparr>tv_address = tv_address bitem - int off,
                         tv_type = xfs_efd_log_item_type cls\<rparr>)"
    using xfs_log_item_typed_known(4)[OF tag refl, of cls]
    by (simp add: container_of_offset[OF off] as_structure_def)
  have name: "map_of XFS_LI_TYPES XFS_LI_EFD = Some ''XFS_LI_EFD''"
    unfolding XFS_LI_TYPES_value by (simp add: XFS_LI_defs)
  have ne: "XFS_LI_EFD \<noteq> XFS_LI_BUF" "XFS_LI_EFD \<noteq> XFS_LI_INODE" "XFS_LI_EFD \<noteq> XFS_LI_EFI"
    "XFS_LI_EFD \<noteq> XFS_LI_DQUOT" "XFS_LI_EFD \<noteq> XFS_LI_QUOTAOFF"
    by (simp_all add: XFS_LI_defs)
  show "dump_ail_item cls img itemno bitem
          = Inr (format_d itemno @ '': item='' @ format_x (tv_address bitem)
                   @ '' lsn='' @ format_d lsn @ '' EFD '',
                 Item_body (''item@'' @ format_x (tv_address bitem - int off)))"
    by (simp add: dump_ail_item_def tag lsn typed name ne)
qed

theorem efd_branch_unreachable_witness:
  "read_field ex_img (ex_item 0x5008) ''li_type'' = Inr XFS_LI_EFD
   \<and> read_field ex_img (ex_item 0x5008) ''li_lsn'' = Inr 7
   \<and> offset_of (xfs_efd_log_item_type ex_cls) ''efd_item'' = Inr 8
   \<and> dump_ail_item ex_cls ex_img 3 (ex_item 0x5008)
       = Inr (''3: item=5008 lsn=7 EFD '', Item_body ''item@5000'')"
proof -
  have l: "read_field ex_img (ex_item 0x5008) ''li_lsn'' = Inr 7"
    by (simp add: read_field_def offset_of_def ex_item_def ex_log_item_def struct_def ex_img_def)
  have o: "offset_of (xfs_efd_log_item_type ex_cls) ''efd_item'' = Inr 8"
    by (simp add: offset_of_def ex_cls_def ex_efd_log_item_def struct_def)
  have x: "format_x 0x5008 = ''5008''" "format_x 0x5000 = ''5000''"
    by (simp_all add: format_x_def hex_nat.simps hex_digit_def)
  have d: "format_d 3 = ''3''" "format_d 7 = ''7''"
    by (simp_all add: format_d_def dec_nat.simps hex_digit_def)
  have a: "tv_address (ex_item 0x5008) = 0x5008" by (simp add: ex_item_def)
  from efd_branch_unreachable [of ex_img "ex_item 0x5008" 7 ex_cls 8 3] ex_tags(4) l o
  have c: "dump_ail_item ex_cls ex_img 3 (ex_item 0x5008)
       = Inr (''3: item=5008 lsn=7 EFD '', Item_body ''item@5000'')"
    by (simp add: a x d)
  show ?thesis
    by (intro conjI) (rule ex_tags(4) l o c)+
qed

end
